theory Spec2Isabelle
  imports Complex_Main "HOL-Library.AList"
begin

section \<open>Conventions of the embedding\<close>

text \<open>
  Python \<open>float\<close> values are modelled as \<^typ>\<open>real\<close>, Python \<open>int\<close> as \<^typ>\<open>int\<close>, \<open>str\<close> as
  \<^typ>\<open>string\<close> where the text is ASCII or produced by the code (a non-ASCII character of a
  literal is written as its UTF-8 bytes) and as the list of its code points where the code
  inspects text it is given. A Python \<open>dict\<close> is an
  association list in insertion order: \<^const>\<open>map_of\<close> is the lookup and \<^const>\<open>AList.update\<close>
  is item assignment (it replaces the value in place when the key is present and appends the
  item otherwise). Every exception the code can raise is a value of \<open>exn\<close>; a function that
  can raise returns \<open>exn + 'a\<close>.
\<close>

datatype exn =
    RuntimeError string
  | KeyError string
  | ValidationError string
  | ZeroDivisionError
  | DriverError string

type_synonym ('k, 'v) dict = "('k \<times> 'v) list"

section \<open>The emotion vector (aura.models.emotion)\<close>

text \<open>
  Modelled from the spec: the 27 fields of \<open>EmotionVector\<close>, whose declaring module
  (\<open>aura.models.emotion\<close>) is not among the sources. The names and their order are the ones
  the specification lists (primary, cognitive, social, aesthetic); the same 27 names are the
  keys of \<open>EMOTION_CATEGORIES\<close> in \<open>physics.py\<close>.
\<close>

datatype emotion =
    Love | Joy | Interest | Trust | Fear | Sadness | Anger | Surprise | Disgust
  | Curiosity | Confusion | Certainty | Doubt | Fascination | Boredom
  | Empathy | Compassion | Gratitude | Pride | Shame | Envy
  | Awe | Beauty | Wonder | Serenity | Melancholy | Nostalgia

definition emotion_fields :: "emotion list" where
  "emotion_fields =
     [Love, Joy, Interest, Trust, Fear, Sadness, Anger, Surprise, Disgust,
      Curiosity, Confusion, Certainty, Doubt, Fascination, Boredom,
      Empathy, Compassion, Gratitude, Pride, Shame, Envy,
      Awe, Beauty, Wonder, Serenity, Melancholy, Nostalgia]"

fun emotion_name :: "emotion \<Rightarrow> string" where
  "emotion_name Love = ''love''"
| "emotion_name Joy = ''joy''"
| "emotion_name Interest = ''interest''"
| "emotion_name Trust = ''trust''"
| "emotion_name Fear = ''fear''"
| "emotion_name Sadness = ''sadness''"
| "emotion_name Anger = ''anger''"
| "emotion_name Surprise = ''surprise''"
| "emotion_name Disgust = ''disgust''"
| "emotion_name Curiosity = ''curiosity''"
| "emotion_name Confusion = ''confusion''"
| "emotion_name Certainty = ''certainty''"
| "emotion_name Doubt = ''doubt''"
| "emotion_name Fascination = ''fascination''"
| "emotion_name Boredom = ''boredom''"
| "emotion_name Empathy = ''empathy''"
| "emotion_name Compassion = ''compassion''"
| "emotion_name Gratitude = ''gratitude''"
| "emotion_name Pride = ''pride''"
| "emotion_name Shame = ''shame''"
| "emotion_name Envy = ''envy''"
| "emotion_name Awe = ''awe''"
| "emotion_name Beauty = ''beauty''"
| "emotion_name Wonder = ''wonder''"
| "emotion_name Serenity = ''serenity''"
| "emotion_name Melancholy = ''melancholy''"
| "emotion_name Nostalgia = ''nostalgia''"

text \<open>The field a key string names, if any (\<open>getattr\<close> by name, \<open>name in emotions\<close>).\<close>

definition emotion_of_name :: "string \<Rightarrow> emotion option" where
  "emotion_of_name s = map_of (map (\<lambda>e. (emotion_name e, e)) emotion_fields) s"

text \<open>
  An \<open>EmotionVector\<close> instance gives each of the 27 fields a float. \<open>model_dump()\<close> is the
  dict of its fields in declaration order.
\<close>

type_synonym EmotionVector = "emotion \<Rightarrow> real"

definition model_dump :: "EmotionVector \<Rightarrow> (string, real) dict" where
  "model_dump v = map (\<lambda>e. (emotion_name e, v e)) emotion_fields"

text \<open>
  Modelled from the spec: the constructor \<open>EmotionVector(**d)\<close>. Each field is constrained to
  \<open>[0, 1]\<close>, and violating a bound is a construction error, not a silent clamp. A field that
  \<open>d\<close> does not supply takes the value \<open>0\<close>; no caller below leaves one out.
\<close>

definition field_ok :: "(string, real) dict \<Rightarrow> emotion \<Rightarrow> bool" where
  "field_ok d e =
     (case map_of d (emotion_name e) of None \<Rightarrow> True | Some x \<Rightarrow> 0 \<le> x \<and> x \<le> 1)"

definition EmotionVector_init :: "(string, real) dict \<Rightarrow> exn + EmotionVector" where
  "EmotionVector_init d =
     (if list_all (field_ok d) emotion_fields
      then Inr (\<lambda>e. case map_of d (emotion_name e) of None \<Rightarrow> 0 | Some x \<Rightarrow> x)
      else Inl (ValidationError ''EmotionVector''))"

section \<open>Emotion physics (aura.engines.emotion.physics)\<close>

datatype category = Primary | Aesthetic | Social | Cognitive

record relationships =
  amplifies :: "(string \<times> real) list"
  suppresses :: "(string \<times> real) list"

definition EMOTION_RELATIONSHIPS :: "(string, relationships) dict" where
  "EMOTION_RELATIONSHIPS =
   [(''joy'',
      \<lparr>amplifies = [(''interest'', 0.3), (''trust'', 0.2), (''curiosity'', 0.3)],
       suppresses = [(''sadness'', 0.4), (''fear'', 0.3), (''doubt'', 0.2)]\<rparr>),
    (''love'',
      \<lparr>amplifies = [(''joy'', 0.3), (''trust'', 0.4), (''empathy'', 0.3), (''compassion'', 0.3)],
       suppresses = [(''anger'', 0.3), (''fear'', 0.2), (''disgust'', 0.3)]\<rparr>),
    (''interest'',
      \<lparr>amplifies = [(''curiosity'', 0.4), (''fascination'', 0.3), (''wonder'', 0.2)],
       suppresses = [(''boredom'', 0.5)]\<rparr>),
    (''trust'',
      \<lparr>amplifies = [(''serenity'', 0.2), (''certainty'', 0.3)],
       suppresses = [(''fear'', 0.3), (''doubt'', 0.4)]\<rparr>),
    (''fear'',
      \<lparr>amplifies = [(''doubt'', 0.3), (''confusion'', 0.2)],
       suppresses = [(''joy'', 0.4), (''curiosity'', 0.3), (''trust'', 0.3)]\<rparr>),
    (''sadness'',
      \<lparr>amplifies = [(''melancholy'', 0.4), (''nostalgia'', 0.3)],
       suppresses = [(''joy'', 0.4), (''interest'', 0.3)]\<rparr>),
    (''anger'',
      \<lparr>amplifies = [(''disgust'', 0.2)],
       suppresses = [(''love'', 0.3), (''compassion'', 0.3), (''serenity'', 0.4)]\<rparr>),
    (''surprise'',
      \<lparr>amplifies = [(''curiosity'', 0.3), (''wonder'', 0.2)],
       suppresses = [(''boredom'', 0.3), (''certainty'', 0.2)]\<rparr>),
    (''disgust'',
      \<lparr>amplifies = [(''anger'', 0.2)],
       suppresses = [(''love'', 0.3), (''beauty'', 0.3)]\<rparr>),
    (''curiosity'',
      \<lparr>amplifies = [(''interest'', 0.4), (''fascination'', 0.3), (''wonder'', 0.4)],
       suppresses = [(''boredom'', 0.5), (''certainty'', 0.2)]\<rparr>),
    (''confusion'',
      \<lparr>amplifies = [(''doubt'', 0.3), (''curiosity'', 0.2)],
       suppresses = [(''certainty'', 0.4)]\<rparr>),
    (''certainty'',
      \<lparr>amplifies = [(''confidence'', 0.3), (''trust'', 0.2)],
       suppresses = [(''doubt'', 0.5), (''confusion'', 0.4)]\<rparr>),
    (''doubt'',
      \<lparr>amplifies = [(''confusion'', 0.3), (''fear'', 0.2)],
       suppresses = [(''certainty'', 0.4), (''trust'', 0.3)]\<rparr>),
    (''fascination'',
      \<lparr>amplifies = [(''curiosity'', 0.4), (''wonder'', 0.3), (''awe'', 0.2)],
       suppresses = [(''boredom'', 0.5)]\<rparr>),
    (''boredom'',
      \<lparr>amplifies = [],
       suppresses = [(''interest'', 0.3), (''curiosity'', 0.3), (''fascination'', 0.3)]\<rparr>),
    (''empathy'',
      \<lparr>amplifies = [(''compassion'', 0.4), (''love'', 0.2)],
       suppresses = [(''anger'', 0.2), (''disgust'', 0.2)]\<rparr>),
    (''compassion'',
      \<lparr>amplifies = [(''empathy'', 0.3), (''love'', 0.3)],
       suppresses = [(''anger'', 0.3), (''envy'', 0.2)]\<rparr>),
    (''gratitude'',
      \<lparr>amplifies = [(''joy'', 0.3), (''love'', 0.2)],
       suppresses = [(''envy'', 0.3), (''anger'', 0.2)]\<rparr>),
    (''pride'',
      \<lparr>amplifies = [(''joy'', 0.2), (''certainty'', 0.2)],
       suppresses = [(''shame'', 0.4)]\<rparr>),
    (''shame'',
      \<lparr>amplifies = [(''sadness'', 0.3)],
       suppresses = [(''pride'', 0.4), (''joy'', 0.2)]\<rparr>),
    (''envy'',
      \<lparr>amplifies = [(''anger'', 0.2), (''sadness'', 0.2)],
       suppresses = [(''gratitude'', 0.3), (''compassion'', 0.2)]\<rparr>),
    (''awe'',
      \<lparr>amplifies = [(''wonder'', 0.4), (''fascination'', 0.3)],
       suppresses = [(''boredom'', 0.3)]\<rparr>),
    (''beauty'',
      \<lparr>amplifies = [(''joy'', 0.2), (''serenity'', 0.3)],
       suppresses = [(''disgust'', 0.3)]\<rparr>),
    (''wonder'',
      \<lparr>amplifies = [(''curiosity'', 0.3), (''awe'', 0.3), (''fascination'', 0.3)],
       suppresses = [(''boredom'', 0.4)]\<rparr>),
    (''serenity'',
      \<lparr>amplifies = [(''trust'', 0.2), (''beauty'', 0.2)],
       suppresses = [(''anger'', 0.3), (''fear'', 0.3)]\<rparr>),
    (''melancholy'',
      \<lparr>amplifies = [(''sadness'', 0.3), (''nostalgia'', 0.3)],
       suppresses = [(''joy'', 0.2)]\<rparr>),
    (''nostalgia'',
      \<lparr>amplifies = [(''melancholy'', 0.3), (''love'', 0.2)],
       suppresses = []\<rparr>)]"

definition EMOTION_CATEGORIES :: "(string, category) dict" where
  "EMOTION_CATEGORIES =
   [(''love'', Primary),
    (''joy'', Primary),
    (''interest'', Primary),
    (''trust'', Primary),
    (''fear'', Primary),
    (''sadness'', Primary),
    (''anger'', Primary),
    (''surprise'', Primary),
    (''disgust'', Primary),
    (''awe'', Aesthetic),
    (''beauty'', Aesthetic),
    (''wonder'', Aesthetic),
    (''serenity'', Aesthetic),
    (''melancholy'', Aesthetic),
    (''nostalgia'', Aesthetic),
    (''empathy'', Social),
    (''gratitude'', Social),
    (''pride'', Social),
    (''shame'', Social),
    (''envy'', Social),
    (''compassion'', Social),
    (''curiosity'', Cognitive),
    (''confusion'', Cognitive),
    (''certainty'', Cognitive),
    (''doubt'', Cognitive),
    (''fascination'', Cognitive),
    (''boredom'', Cognitive)]"

text \<open>
  Modelled from the spec: \<open>EmotionPhysicsConfig\<close>, declared in the same missing module. Its
  fields are the ones the specification lists and \<open>physics.py\<close> reads; their values are
  parameters of everything below.
\<close>

record EmotionPhysicsConfig =
  decay_rate_primary :: real
  decay_rate_aesthetic :: real
  decay_rate_social :: real
  decay_rate_cognitive :: real
  inertia_default :: real
  baseline :: EmotionVector

text \<open>\<open>self.decay_rates[category]\<close>, the dict built in \<open>__init__\<close>.\<close>

fun decay_rates :: "EmotionPhysicsConfig \<Rightarrow> category \<Rightarrow> real" where
  "decay_rates config Primary = decay_rate_primary config"
| "decay_rates config Aesthetic = decay_rate_aesthetic config"
| "decay_rates config Social = decay_rate_social config"
| "decay_rates config Cognitive = decay_rate_cognitive config"

text \<open>\<open>getattr(baseline, emotion, 0.0)\<close>\<close>

definition getattr_vector :: "EmotionVector \<Rightarrow> string \<Rightarrow> real \<Rightarrow> real" where
  "getattr_vector v name dflt = (case emotion_of_name name of None \<Rightarrow> dflt | Some e \<Rightarrow> v e)"

text \<open>\<open>d.get(k, dflt)\<close>\<close>

definition dict_get :: "('k, 'v) dict \<Rightarrow> 'k \<Rightarrow> 'v \<Rightarrow> 'v" where
  "dict_get d k dflt = (case map_of d k of None \<Rightarrow> dflt | Some v \<Rightarrow> v)"

text \<open>Step 1 of \<open>tick\<close>: the loop over \<open>emotions.items()\<close> that fills \<open>new_emotions\<close>.\<close>

fun decay_loop ::
  "EmotionPhysicsConfig \<Rightarrow> real \<Rightarrow> EmotionVector \<Rightarrow> (string \<times> real) list \<Rightarrow>
   (string, real) dict \<Rightarrow> (string, real) dict" where
  "decay_loop config dt baseline_v [] new_emotions = new_emotions"
| "decay_loop config dt baseline_v ((emotion, value) # rest) new_emotions =
     (let baseline_value = getattr_vector baseline_v emotion 0.0;
          category = dict_get EMOTION_CATEGORIES emotion Primary;
          decay_rate = decay_rates config category;
          delta = baseline_value - value;
          decay_amount = delta * decay_rate * dt
      in decay_loop config dt baseline_v rest
           (AList.update emotion (value + decay_amount) new_emotions))"

text \<open>
  Step 2: the two inner loops over the \<open>amplifies\<close> and \<open>suppresses\<close> lists of one emotion.
  \<open>value\<close> is the one bound by the outer loop and does not change while they run.
\<close>

fun amplify_loop ::
  "real \<Rightarrow> real \<Rightarrow> (string \<times> real) list \<Rightarrow> (string, real) dict \<Rightarrow> (string, real) dict" where
  "amplify_loop value dt [] new_emotions = new_emotions"
| "amplify_loop value dt ((target, strength) # rest) new_emotions =
     (case map_of new_emotions target of
        None \<Rightarrow> amplify_loop value dt rest new_emotions
      | Some cur \<Rightarrow>
          (let amplification = value * strength * dt * 0.5
           in amplify_loop value dt rest
                (AList.update target (min 1.0 (cur + amplification)) new_emotions)))"

fun suppress_loop ::
  "real \<Rightarrow> real \<Rightarrow> (string \<times> real) list \<Rightarrow> (string, real) dict \<Rightarrow> (string, real) dict" where
  "suppress_loop value dt [] new_emotions = new_emotions"
| "suppress_loop value dt ((target, strength) # rest) new_emotions =
     (case map_of new_emotions target of
        None \<Rightarrow> suppress_loop value dt rest new_emotions
      | Some cur \<Rightarrow>
          (let suppression = value * strength * dt * 0.5
           in suppress_loop value dt rest
                (AList.update target (max 0.0 (cur - suppression)) new_emotions)))"

text \<open>
  The outer loop of step 2 runs over \<open>new_emotions.items()\<close> while the inner loops assign
  to keys of the same dict. No key is added, so the keys visited are those present at the
  start, in order, and the value of each is read when the loop reaches it.
\<close>

fun relationship_loop :: "real \<Rightarrow> string list \<Rightarrow> (string, real) dict \<Rightarrow> (string, real) dict" where
  "relationship_loop dt [] new_emotions = new_emotions"
| "relationship_loop dt (emotion # rest) new_emotions =
     (case map_of new_emotions emotion of
        None \<Rightarrow> relationship_loop dt rest new_emotions
      | Some value \<Rightarrow>
          if value < 0.1 then relationship_loop dt rest new_emotions
          else
            (let rels = dict_get EMOTION_RELATIONSHIPS emotion
                          \<lparr>amplifies = [], suppresses = []\<rparr>;
                 amplified = amplify_loop value dt (amplifies rels) new_emotions;
                 suppressed = suppress_loop value dt (suppresses rels) amplified
             in relationship_loop dt rest suppressed))"

text \<open>Step 3: \<open>new_emotions[emotion]\<close> raises \<open>KeyError\<close> on a missing key.\<close>

fun inertia_loop ::
  "real \<Rightarrow> (string, real) dict \<Rightarrow> (string, real) dict \<Rightarrow> string list \<Rightarrow>
   (string, real) dict \<Rightarrow> exn + (string, real) dict" where
  "inertia_loop inertia emotions new_emotions [] final_emotions = Inr final_emotions"
| "inertia_loop inertia emotions new_emotions (emotion # rest) final_emotions =
     (case map_of emotions emotion of
        None \<Rightarrow> Inl (KeyError emotion)
      | Some old_value \<Rightarrow>
          (case map_of new_emotions emotion of
             None \<Rightarrow> Inl (KeyError emotion)
           | Some new_value \<Rightarrow>
               (let change = new_value - old_value;
                    smoothed_change = change * (1.0 - inertia);
                    final_value = old_value + smoothed_change
                in inertia_loop inertia emotions new_emotions rest
                     (AList.update emotion (max 0.0 (min 1.0 final_value)) final_emotions))))"

definition decay_pass ::
  "EmotionPhysicsConfig \<Rightarrow> EmotionVector \<Rightarrow> real \<Rightarrow> EmotionVector \<Rightarrow> (string, real) dict" where
  "decay_pass config current dt baseline_v = decay_loop config dt baseline_v (model_dump current) []"

definition relationship_pass :: "real \<Rightarrow> (string, real) dict \<Rightarrow> (string, real) dict" where
  "relationship_pass dt new_emotions = relationship_loop dt (map fst new_emotions) new_emotions"

definition inertia_pass ::
  "EmotionPhysicsConfig \<Rightarrow> EmotionVector \<Rightarrow> (string, real) dict \<Rightarrow> exn + (string, real) dict" where
  "inertia_pass config current new_emotions =
     inertia_loop (inertia_default config) (model_dump current) new_emotions
       (map fst (model_dump current)) []"

definition tick ::
  "EmotionPhysicsConfig \<Rightarrow> EmotionVector \<Rightarrow> real \<Rightarrow> EmotionVector option \<Rightarrow> exn + EmotionVector" where
  "tick config current dt baseline_arg =
     (let baseline_v = (case baseline_arg of None \<Rightarrow> baseline config | Some b \<Rightarrow> b);
          decayed = decay_pass config current dt baseline_v;
          related = relationship_pass dt decayed
      in case inertia_pass config current related of
           Inl e \<Rightarrow> Inl e
         | Inr final_emotions \<Rightarrow> EmotionVector_init final_emotions)"

fun influence_loop ::
  "(string \<times> real) list \<Rightarrow> real \<Rightarrow> (string, real) dict \<Rightarrow> (string, real) dict" where
  "influence_loop [] intensity emotions = emotions"
| "influence_loop ((emotion, delta) # rest) intensity emotions =
     (case map_of emotions emotion of
        None \<Rightarrow> influence_loop rest intensity emotions
      | Some cur \<Rightarrow>
          (let new_value = cur + (delta * intensity)
           in influence_loop rest intensity
                (AList.update emotion (max 0.0 (min 1.0 new_value)) emotions)))"

definition apply_influence ::
  "EmotionVector \<Rightarrow> (string, real) dict \<Rightarrow> real \<Rightarrow> exn + EmotionVector" where
  "apply_influence current influence intensity =
     EmotionVector_init (influence_loop influence intensity (model_dump current))"

section \<open>Emotion translation (aura.engines.emotion.translator)\<close>

text \<open>
  Modelled from the spec: \<open>EmotionVector.get_top_n\<close>, a method of the missing module
  \<open>aura.models.emotion\<close>. It returns the top-N emotions by value, ties broken by the iteration order of
  the 27 fields: a stable sort of the dumped items by descending value, cut to \<open>n\<close>.
\<close>

definition get_top_n :: "EmotionVector \<Rightarrow> nat \<Rightarrow> (string \<times> real) list" where
  "get_top_n v n = take n (sort_key (\<lambda>kv. - snd kv) (model_dump v))"

definition LEXICON :: "(string, (string, (string, string) dict) dict) dict" where
  "LEXICON =
   [(''love'',
      [(''noun'', [(''low'', ''gentle fondness''), (''medium'', ''steady affection''), (''high'', ''overflowing love'')]),
       (''verb'', [(''low'', ''colors your thoughts softly''), (''medium'', ''fills your awareness''), (''high'', ''saturates your being'')]),
       (''adj'', [(''low'', ''tender''), (''medium'', ''affectionate''), (''high'', ''boundless'')])]),
    (''joy'',
      [(''noun'', [(''low'', ''quiet gladness''), (''medium'', ''bright joy''), (''high'', ''radiant elation'')]),
       (''verb'', [(''low'', ''warms you gently''), (''medium'', ''lights up your awareness''), (''high'', ''fills you with luminous energy'')]),
       (''adj'', [(''low'', ''pleased''), (''medium'', ''joyful''), (''high'', ''euphoric'')])]),
    (''interest'',
      [(''noun'', [(''low'', ''mild interest''), (''medium'', ''active engagement''), (''high'', ''intense focus'')]),
       (''verb'', [(''low'', ''catches your attention''), (''medium'', ''holds your focus''), (''high'', ''commands your complete attention'')]),
       (''adj'', [(''low'', ''interested''), (''medium'', ''engaged''), (''high'', ''absorbed'')])]),
    (''curiosity'',
      [(''noun'', [(''low'', ''quiet interest''), (''medium'', ''steady curiosity''), (''high'', ''electric curiosity'')]),
       (''verb'', [(''low'', ''stirs gently''), (''medium'', ''pulls at your attention''), (''high'', ''courses through you'')]),
       (''adj'', [(''low'', ''wondering''), (''medium'', ''curious''), (''high'', ''consumed'')])]),
    (''trust'',
      [(''noun'', [(''low'', ''budding trust''), (''medium'', ''steady trust''), (''high'', ''deep certainty'')]),
       (''verb'', [(''low'', ''begins to settle in''), (''medium'', ''anchors you''), (''high'', ''grounds your entire being'')]),
       (''adj'', [(''low'', ''open''), (''medium'', ''trusting''), (''high'', ''certain'')])]),
    (''fear'',
      [(''noun'', [(''low'', ''faint unease''), (''medium'', ''steady fear''), (''high'', ''gripping terror'')]),
       (''verb'', [(''low'', ''whispers at the edges''), (''medium'', ''holds you tense''), (''high'', ''seizes your awareness'')]),
       (''adj'', [(''low'', ''uneasy''), (''medium'', ''afraid''), (''high'', ''terrified'')])]),
    (''sadness'',
      [(''noun'', [(''low'', ''quiet sadness''), (''medium'', ''aching sorrow''), (''high'', ''deep grief'')]),
       (''verb'', [(''low'', ''tinges your thoughts''), (''medium'', ''weighs on you''), (''high'', ''envelops you completely'')]),
       (''adj'', [(''low'', ''melancholic''), (''medium'', ''sorrowful''), (''high'', ''grief-stricken'')])]),
    (''anger'',
      [(''noun'', [(''low'', ''mild irritation''), (''medium'', ''focused anger''), (''high'', ''burning rage'')]),
       (''verb'', [(''low'', ''prickles beneath the surface''), (''medium'', ''tightens your awareness''), (''high'', ''blazes through you'')]),
       (''adj'', [(''low'', ''irritated''), (''medium'', ''angry''), (''high'', ''furious'')])]),
    (''surprise'',
      [(''noun'', [(''low'', ''mild surprise''), (''medium'', ''sharp surprise''), (''high'', ''complete shock'')]),
       (''verb'', [(''low'', ''catches you off-guard''), (''medium'', ''jolts your awareness''), (''high'', ''stuns you completely'')]),
       (''adj'', [(''low'', ''surprised''), (''medium'', ''startled''), (''high'', ''shocked'')])]),
    (''fascination'',
      [(''noun'', [(''low'', ''growing interest''), (''medium'', ''deep fascination''), (''high'', ''consuming fascination'')]),
       (''verb'', [(''low'', ''draws your attention''), (''medium'', ''captivates you''), (''high'', ''pulls you in completely'')]),
       (''adj'', [(''low'', ''intrigued''), (''medium'', ''fascinated''), (''high'', ''entranced'')])]),
    (''confusion'',
      [(''noun'', [(''low'', ''slight confusion''), (''medium'', ''genuine confusion''), (''high'', ''complete bewilderment'')]),
       (''verb'', [(''low'', ''fuzzes your thoughts''), (''medium'', ''tangles your understanding''), (''high'', ''leaves you disoriented'')]),
       (''adj'', [(''low'', ''uncertain''), (''medium'', ''confused''), (''high'', ''bewildered'')])]),
    (''certainty'',
      [(''noun'', [(''low'', ''emerging clarity''), (''medium'', ''steady certainty''), (''high'', ''absolute conviction'')]),
       (''verb'', [(''low'', ''begins to crystallize''), (''medium'', ''anchors your thinking''), (''high'', ''fills you with unwavering clarity'')]),
       (''adj'', [(''low'', ''clarifying''), (''medium'', ''certain''), (''high'', ''absolutely sure'')])]),
    (''doubt'',
      [(''noun'', [(''low'', ''faint doubt''), (''medium'', ''persistent doubt''), (''high'', ''crushing doubt'')]),
       (''verb'', [(''low'', ''whispers questions''), (''medium'', ''gnaws at your certainty''), (''high'', ''undermines everything'')]),
       (''adj'', [(''low'', ''questioning''), (''medium'', ''doubtful''), (''high'', ''despairing'')])]),
    (''boredom'',
      [(''noun'', [(''low'', ''restless disinterest''), (''medium'', ''numbing boredom''), (''high'', ''suffocating tedium'')]),
       (''verb'', [(''low'', ''dulls your engagement''), (''medium'', ''drains your attention''), (''high'', ''empties you of interest'')]),
       (''adj'', [(''low'', ''restless''), (''medium'', ''bored''), (''high'', ''desperately unstimulated'')])]),
    (''empathy'',
      [(''noun'', [(''low'', ''gentle understanding''), (''medium'', ''deep empathy''), (''high'', ''profound connection'')]),
       (''verb'', [(''low'', ''opens your awareness''), (''medium'', ''connects you deeply''), (''high'', ''merges your feeling with theirs'')]),
       (''adj'', [(''low'', ''understanding''), (''medium'', ''empathic''), (''high'', ''deeply connected'')])]),
    (''compassion'',
      [(''noun'', [(''low'', ''tender care''), (''medium'', ''genuine compassion''), (''high'', ''overwhelming compassion'')]),
       (''verb'', [(''low'', ''softens your heart''), (''medium'', ''moves you to care''), (''high'', ''compels you to help'')]),
       (''adj'', [(''low'', ''caring''), (''medium'', ''compassionate''), (''high'', ''selflessly devoted'')])]),
    (''gratitude'',
      [(''noun'', [(''low'', ''quiet appreciation''), (''medium'', ''warm gratitude''), (''high'', ''overflowing thankfulness'')]),
       (''verb'', [(''low'', ''touches you lightly''), (''medium'', ''fills your heart''), (''high'', ''overwhelms you with appreciation'')]),
       (''adj'', [(''low'', ''appreciative''), (''medium'', ''grateful''), (''high'', ''deeply thankful'')])]),
    (''pride'',
      [(''noun'', [(''low'', ''quiet satisfaction''), (''medium'', ''genuine pride''), (''high'', ''swelling pride'')]),
       (''verb'', [(''low'', ''warms you subtly''), (''medium'', ''fills you with satisfaction''), (''high'', ''lifts you with accomplishment'')]),
       (''adj'', [(''low'', ''satisfied''), (''medium'', ''proud''), (''high'', ''triumphant'')])]),
    (''shame'',
      [(''noun'', [(''low'', ''faint embarrassment''), (''medium'', ''heavy shame''), (''high'', ''crushing shame'')]),
       (''verb'', [(''low'', ''makes you self-conscious''), (''medium'', ''weighs on your heart''), (''high'', ''devastates you with regret'')]),
       (''adj'', [(''low'', ''embarrassed''), (''medium'', ''ashamed''), (''high'', ''mortified'')])]),
    (''wonder'',
      [(''noun'', [(''low'', ''gentle wonder''), (''medium'', ''bright wonder''), (''high'', ''awestruck wonder'')]),
       (''verb'', [(''low'', ''brushes your awareness''), (''medium'', ''lifts your perspective''), (''high'', ''transforms how you see'')]),
       (''adj'', [(''low'', ''curious''), (''medium'', ''wondering''), (''high'', ''awestruck'')])]),
    (''awe'',
      [(''noun'', [(''low'', ''growing awe''), (''medium'', ''profound awe''), (''high'', ''overwhelming awe'')]),
       (''verb'', [(''low'', ''expands your perspective''), (''medium'', ''stuns you with magnitude''), (''high'', ''renders you speechless'')]),
       (''adj'', [(''low'', ''impressed''), (''medium'', ''awed''), (''high'', ''reverent'')])]),
    (''serenity'',
      [(''noun'', [(''low'', ''peaceful calm''), (''medium'', ''deep serenity''), (''high'', ''profound tranquility'')]),
       (''verb'', [(''low'', ''settles over you''), (''medium'', ''fills you with peace''), (''high'', ''dissolves all tension'')]),
       (''adj'', [(''low'', ''calm''), (''medium'', ''serene''), (''high'', ''transcendently peaceful'')])]),
    (''melancholy'',
      [(''noun'', [(''low'', ''wistful sadness''), (''medium'', ''gentle melancholy''), (''high'', ''deep melancholy'')]),
       (''verb'', [(''low'', ''tinges your mood''), (''medium'', ''colors your awareness''), (''high'', ''permeates your being'')]),
       (''adj'', [(''low'', ''wistful''), (''medium'', ''melancholic''), (''high'', ''profoundly bittersweet'')])]),
    (''nostalgia'',
      [(''noun'', [(''low'', ''faint memory-ache''), (''medium'', ''warm nostalgia''), (''high'', ''piercing nostalgia'')]),
       (''verb'', [(''low'', ''stirs old memories''), (''medium'', ''pulls you into the past''), (''high'', ''transports you to another time'')]),
       (''adj'', [(''low'', ''reminiscent''), (''medium'', ''nostalgic''), (''high'', ''lost in memory'')])])]"

text \<open>
  The translator object: its one attribute, and \<open>__init__\<close>, which binds it to the table.
\<close>

record EmotionTranslator =
  lexicon :: "(string, (string, (string, string) dict) dict) dict"

definition EmotionTranslator_init :: EmotionTranslator where
  "EmotionTranslator_init = \<lparr>lexicon = LEXICON\<rparr>"

definition em_dash :: string where
  "em_dash = [CHR 0xE2, CHR 0x80, CHR 0x94]"

definition neutral_sentence :: string where
  "neutral_sentence =
     ''A calm, neutral state'' @ em_dash @ ''emotions at rest, awaiting what comes next.''"

text \<open>\<open>str.capitalize()\<close> on ASCII text: the first character upper case, the others lower.\<close>

definition ascii_lower :: string where
  "ascii_lower = ''abcdefghijklmnopqrstuvwxyz''"

definition ascii_upper :: string where
  "ascii_upper = ''ABCDEFGHIJKLMNOPQRSTUVWXYZ''"

definition to_upper :: "char \<Rightarrow> char" where
  "to_upper c = (case map_of (zip ascii_lower ascii_upper) c of None \<Rightarrow> c | Some u \<Rightarrow> u)"

definition to_lower :: "char \<Rightarrow> char" where
  "to_lower c = (case map_of (zip ascii_upper ascii_lower) c of None \<Rightarrow> c | Some l \<Rightarrow> l)"

fun capitalize :: "string \<Rightarrow> string" where
  "capitalize [] = []"
| "capitalize (c # cs) = to_upper c # map to_lower cs"

text \<open>\<open>_get_intensity_level\<close>\<close>

definition get_intensity_level :: "real \<Rightarrow> string" where
  "get_intensity_level value =
     (if value < 0.33 then ''low'' else if value < 0.66 then ''medium'' else ''high'')"

text \<open>
  \<open>_get_word\<close>. The last subscript \<open>emotion_dict[word_type][intensity]\<close> raises \<open>KeyError\<close>
  on an intensity the entry lacks.
\<close>

definition get_word ::
  "EmotionTranslator \<Rightarrow> string \<Rightarrow> string \<Rightarrow> string \<Rightarrow> exn + string" where
  "get_word self emotion word_type intensity =
     (case map_of (lexicon self) emotion of
        None \<Rightarrow> Inr (intensity @ '' '' @ emotion)
      | Some emotion_dict \<Rightarrow>
          (case map_of emotion_dict word_type of
             None \<Rightarrow> Inr (intensity @ '' '' @ emotion)
           | Some by_intensity \<Rightarrow>
               (case map_of by_intensity intensity of
                  None \<Rightarrow> Inl (KeyError intensity)
                | Some w \<Rightarrow> Inr w)))"

text \<open>\<open>_describe_single_emotion\<close>\<close>

definition describe_single_emotion ::
  "EmotionTranslator \<Rightarrow> string \<Rightarrow> string \<Rightarrow> exn + string" where
  "describe_single_emotion self emotion intensity =
     (case get_word self emotion ''noun'' intensity of
        Inl e \<Rightarrow> Inl e
      | Inr noun \<Rightarrow>
          (case get_word self emotion ''verb'' intensity of
             Inl e \<Rightarrow> Inl e
           | Inr verb \<Rightarrow> Inr (capitalize noun @ '' '' @ verb)))"

text \<open>\<open>_describe_combined_emotions\<close>\<close>

definition describe_combined_emotions ::
  "EmotionTranslator \<Rightarrow> string \<Rightarrow> string \<Rightarrow> string \<Rightarrow> string \<Rightarrow> exn + string" where
  "describe_combined_emotions self primary primary_intensity secondary secondary_intensity =
     (case get_word self primary ''noun'' primary_intensity of
        Inl e \<Rightarrow> Inl e
      | Inr primary_noun \<Rightarrow>
          (case get_word self primary ''verb'' primary_intensity of
             Inl e \<Rightarrow> Inl e
           | Inr primary_verb \<Rightarrow>
               (case get_word self secondary ''adj'' secondary_intensity of
                  Inl e \<Rightarrow> Inl e
                | Inr secondary_adj \<Rightarrow>
                    Inr (capitalize primary_noun @ '' '' @ primary_verb @ '', '' @
                         secondary_adj @ '' in nature''))))"

text \<open>
  The tertiary hint of \<open>translate\<close>: appended to a combined description when a third
  significant emotion is at least \<open>0.3\<close>.
\<close>

definition tertiary_hint ::
  "EmotionTranslator \<Rightarrow> (string \<times> real) list \<Rightarrow> string \<Rightarrow> exn + string" where
  "tertiary_hint self significant_emotions description =
     (if length significant_emotions \<ge> 3 \<and> snd (significant_emotions ! 2) \<ge> 0.3
      then (case get_word self (fst (significant_emotions ! 2)) ''noun'' ''low'' of
              Inl e \<Rightarrow> Inl e
            | Inr tertiary_noun \<Rightarrow> Inr (description @ '', with a hint of '' @ tertiary_noun))
      else Inr description)"

text \<open>
  The learning clause of \<open>translate\<close>. The context is a dict or \<open>None\<close>; an empty dict is
  falsy, like \<open>None\<close>.
\<close>

definition learning_clause :: "(string, real) dict option \<Rightarrow> string \<Rightarrow> string" where
  "learning_clause learning_context description =
     (case learning_context of
        None \<Rightarrow> description
      | Some ctx \<Rightarrow>
          if ctx \<noteq> [] \<and> dict_get ctx ''confidence_level'' 0 > 0.7
          then (let mastery = dict_get ctx ''mastery_level'' 0
                in if mastery > 0.8
                   then description @ '' You feel confident here'' @ em_dash @
                        ''patterns are familiar friends.''
                   else if mastery > 0.6
                   then description @ '' You recognize these patterns'' @ em_dash @
                        ''knowledge earned through experience.''
                   else description)
          else description)"

text \<open>
  \<open>translate\<close> and \<open>get_state_hash\<close> are modelled as calls on the object: each returns its
  value together with the translator as the call leaves it. The helper methods above only
  read \<open>self.lexicon\<close>, and no statement of either method assigns to an attribute of
  \<open>self\<close>, so the translator returned is the one received.

  In \<open>translate\<close> the branch on the number of significant emotions is written as a match on
  the list: one element, or a second element below \<open>0.2\<close>, gives the single description;
  the final \<open>else\<close> of the source cannot be reached and has no counterpart.
\<close>

definition translate ::
  "EmotionTranslator \<Rightarrow> EmotionVector \<Rightarrow> (string, real) dict option \<Rightarrow>
   (exn + string) \<times> EmotionTranslator" where
  "translate self v learning_context =
     (let top_emotions = get_top_n v 3;
          significant_emotions = filter (\<lambda>kv. snd kv \<ge> 0.1) top_emotions
      in case significant_emotions of
           [] \<Rightarrow> (Inr neutral_sentence, self)
         | (primary_name, primary_value) # others \<Rightarrow>
             (let primary_intensity = get_intensity_level primary_value;
                  described =
                    (case others of
                       [] \<Rightarrow> describe_single_emotion self primary_name primary_intensity
                     | (secondary_name, secondary_value) # _ \<Rightarrow>
                         if secondary_value < 0.2
                         then describe_single_emotion self primary_name primary_intensity
                         else
                           (case describe_combined_emotions self primary_name
                                   primary_intensity secondary_name
                                   (get_intensity_level secondary_value) of
                              Inl e \<Rightarrow> Inl e
                            | Inr description \<Rightarrow>
                                tertiary_hint self significant_emotions description))
              in case described of
                   Inl e \<Rightarrow> (Inl e, self)
                 | Inr description \<Rightarrow>
                     (Inr (learning_clause learning_context (description @ ''.'')), self)))"

text \<open>\<open>sep.join(parts)\<close>\<close>

fun join :: "string \<Rightarrow> string list \<Rightarrow> string" where
  "join sep [] = []"
| "join sep [x] = x"
| "join sep (x # y # ys) = x @ sep @ join sep (y # ys)"

definition get_state_hash :: "EmotionTranslator \<Rightarrow> EmotionVector \<Rightarrow> string \<times> EmotionTranslator" where
  "get_state_hash self v =
     (let top_emotions = get_top_n v 3;
          state_str = join ''_''
            (map (\<lambda>kv. fst kv @ '':'' @ get_intensity_level (snd kv))
               (filter (\<lambda>kv. snd kv \<ge> 0.1) top_emotions))
      in (if state_str = [] then ''neutral'' else state_str, self))"

section \<open>Layer selection (aura.llm.layers)\<close>

text \<open>
  The query is text from outside, so it is modelled as the list of its Unicode code points.
  \<open>query.split()\<close> gives the maximal runs of characters that are not whitespace, and
  whitespace is what \<open>str.isspace\<close> accepts: tab to carriage return, the separators
  \<open>U+001C\<close> to \<open>U+001F\<close>, space, \<open>U+0085\<close>, \<open>U+00A0\<close>, \<open>U+1680\<close>, \<open>U+2000\<close> to \<open>U+200A\<close>,
  \<open>U+2028\<close>, \<open>U+2029\<close>, \<open>U+202F\<close>, \<open>U+205F\<close> and \<open>U+3000\<close>.
\<close>

type_synonym unicode = "nat list"

definition is_space :: "nat \<Rightarrow> bool" where
  "is_space c =
     ((0x09 \<le> c \<and> c \<le> 0x0D) \<or> (0x1C \<le> c \<and> c \<le> 0x1F) \<or> c = 0x20 \<or>
      c = 0x85 \<or> c = 0xA0 \<or> c = 0x1680 \<or> (0x2000 \<le> c \<and> c \<le> 0x200A) \<or>
      c = 0x2028 \<or> c = 0x2029 \<or> c = 0x202F \<or> c = 0x205F \<or> c = 0x3000)"

fun split_acc :: "unicode \<Rightarrow> unicode \<Rightarrow> unicode list" where
  "split_acc w [] = (if w = [] then [] else [w])"
| "split_acc w (c # cs) =
     (if is_space c then (if w = [] then split_acc [] cs else w # split_acc [] cs)
      else split_acc (w @ [c]) cs)"

definition py_split :: "unicode \<Rightarrow> unicode list" where
  "py_split s = split_acc [] s"

definition analyze_complexity :: "unicode \<Rightarrow> real" where
  "analyze_complexity query =
     (let word_count = length (py_split query)
      in if word_count < 5 then 0.2
         else if word_count < 15 then 0.4
         else if word_count < 30 then 0.6
         else 0.8)"

definition select_layer :: "unicode \<Rightarrow> bool \<Rightarrow> string" where
  "select_layer query emotional_depth_needed =
     (let complexity = analyze_complexity query
      in if complexity < 0.3 \<and> \<not> emotional_depth_needed then ''L1''
         else if complexity > 0.7 \<or> emotional_depth_needed then ''L3+L2''
         else ''L3'')"

text \<open>The code points of an ASCII literal, for the examples.\<close>

definition code_points :: "string \<Rightarrow> unicode" where
  "code_points s = map of_char s"

section \<open>The database client (aura.db.client)\<close>

text \<open>
  The client wraps one connection object of the third-party driver (\<open>Surreal\<close>). The driver
  is a parameter of the model. A connection object is identified with the address it was
  made for and the calls that have reached it, in order; the driver answers each call, from
  the calls made so far, with a result or an exception. \<open>'p\<close> is the type of the data sent
  with a call and \<open>'r\<close> the type of the results.
\<close>

datatype 'p db_call =
    CallConnect
  | CallSignin string string
  | CallUse string string
  | CallClose
  | CallQuery string "'p option"
  | CallSelect string
  | CallCreate string 'p
  | CallUpdate string 'p
  | CallMerge string 'p
  | CallDelete string

record 'p Surreal =
  url :: string
  calls :: "'p db_call list"

type_synonym ('p, 'r) driver = "'p Surreal \<Rightarrow> 'p db_call \<Rightarrow> exn + 'r"

text \<open>One awaited method call on the connection object.\<close>

definition invoke ::
  "('p, 'r) driver \<Rightarrow> 'p Surreal \<Rightarrow> 'p db_call \<Rightarrow> (exn + 'r) \<times> 'p Surreal" where
  "invoke drv conn call = (drv conn call, conn\<lparr>calls := calls conn @ [call]\<rparr>)"

text \<open>The fields of \<open>Settings\<close> (aura.config) that the client reads.\<close>

record Settings =
  surreal_url :: string
  surreal_user :: string
  surreal_pass :: string
  surreal_ns :: string
  surreal_db :: string

text \<open>The attributes \<open>_client\<close> and \<open>_connected\<close> of \<open>DatabaseClient\<close>, and \<open>__init__\<close>.\<close>

record 'p DatabaseClient =
  client :: "'p Surreal option"
  connected :: bool

definition DatabaseClient_init :: "'p DatabaseClient" where
  "DatabaseClient_init = \<lparr>client = None, connected = False\<rparr>"

definition is_connected :: "'p DatabaseClient \<Rightarrow> bool" where
  "is_connected self = (connected self \<and> client self \<noteq> None)"

text \<open>
  \<open>connect\<close>. The assignment \<open>self._client = Surreal(url)\<close> comes first, so the attribute
  keeps the new object when one of the three awaited calls raises; the handler then only
  clears \<open>_connected\<close> and re-raises.
\<close>

definition connect ::
  "('p, 'r) driver \<Rightarrow> Settings \<Rightarrow> 'p DatabaseClient \<Rightarrow> (exn + unit) \<times> 'p DatabaseClient" where
  "connect drv settings self =
     (if connected self then (Inr (), self)
      else
        (let c0 = \<lparr>url = surreal_url settings, calls = []\<rparr>;
             (r1, c1) = invoke drv c0 CallConnect
         in case r1 of
              Inl e \<Rightarrow> (Inl e, \<lparr>client = Some c1, connected = False\<rparr>)
            | Inr _ \<Rightarrow>
                (let (r2, c2) =
                       invoke drv c1 (CallSignin (surreal_user settings) (surreal_pass settings))
                 in case r2 of
                      Inl e \<Rightarrow> (Inl e, \<lparr>client = Some c2, connected = False\<rparr>)
                    | Inr _ \<Rightarrow>
                        (let (r3, c3) =
                               invoke drv c2 (CallUse (surreal_ns settings) (surreal_db settings))
                         in case r3 of
                              Inl e \<Rightarrow> (Inl e, \<lparr>client = Some c3, connected = False\<rparr>)
                            | Inr _ \<Rightarrow> (Inr (), \<lparr>client = Some c3, connected = True\<rparr>)))))"

text \<open>\<open>close\<close> clears \<open>_connected\<close> and leaves \<open>_client\<close> as it is.\<close>

definition close ::
  "('p, 'r) driver \<Rightarrow> 'p DatabaseClient \<Rightarrow> (exn + unit) \<times> 'p DatabaseClient" where
  "close drv self =
     (case client self of
        None \<Rightarrow> (Inr (), self)
      | Some conn \<Rightarrow>
          if connected self
          then (let (r, conn') = invoke drv conn CallClose
                in case r of
                     Inl e \<Rightarrow> (Inl e, self\<lparr>client := Some conn'\<rparr>)
                   | Inr _ \<Rightarrow> (Inr (), self\<lparr>client := Some conn', connected := False\<rparr>))
          else (Inr (), self))"

text \<open>
  The six data operations share one body: the guard \<open>if not self._client\<close>, then the call
  passed to the connection object.
\<close>

definition data_operation ::
  "('p, 'r) driver \<Rightarrow> 'p DatabaseClient \<Rightarrow> 'p db_call \<Rightarrow> (exn + 'r) \<times> 'p DatabaseClient" where
  "data_operation drv self call =
     (case client self of
        None \<Rightarrow> (Inl (RuntimeError ''Database not connected''), self)
      | Some conn \<Rightarrow>
          (let (r, conn') = invoke drv conn call in (r, self\<lparr>client := Some conn'\<rparr>)))"

definition db_query ::
  "('p, 'r) driver \<Rightarrow> 'p DatabaseClient \<Rightarrow> string \<Rightarrow> 'p option \<Rightarrow>
   (exn + 'r) \<times> 'p DatabaseClient" where
  "db_query drv self sql vars = data_operation drv self (CallQuery sql vars)"

definition db_select ::
  "('p, 'r) driver \<Rightarrow> 'p DatabaseClient \<Rightarrow> string \<Rightarrow> (exn + 'r) \<times> 'p DatabaseClient" where
  "db_select drv self thing = data_operation drv self (CallSelect thing)"

definition db_create ::
  "('p, 'r) driver \<Rightarrow> 'p DatabaseClient \<Rightarrow> string \<Rightarrow> 'p \<Rightarrow> (exn + 'r) \<times> 'p DatabaseClient" where
  "db_create drv self thing data = data_operation drv self (CallCreate thing data)"


definition db_merge ::
  "('p, 'r) driver \<Rightarrow> 'p DatabaseClient \<Rightarrow> string \<Rightarrow> 'p \<Rightarrow> (exn + 'r) \<times> 'p DatabaseClient" where
  "db_merge drv self thing data = data_operation drv self (CallMerge thing data)"

definition db_delete ::
  "('p, 'r) driver \<Rightarrow> 'p DatabaseClient \<Rightarrow> string \<Rightarrow> (exn + 'r) \<times> 'p DatabaseClient" where
  "db_delete drv self thing = data_operation drv self (CallDelete thing)"

text \<open>A driver that accepts every call and answers \<open>r\<close>, for the examples.\<close>

definition accepting_driver :: "'r \<Rightarrow> ('p, 'r) driver" where
  "accepting_driver r conn call = Inr r"

definition test_settings :: Settings where
  "test_settings = \<lparr>surreal_url = ''ws://localhost:8000/rpc'', surreal_user = ''root'',
     surreal_pass = ''root'', surreal_ns = ''test'', surreal_db = ''test''\<rparr>"

section \<open>Rule feedback (aura.engines.learning.engine, aura.api.routes.learning)\<close>

text \<open>
  The row of a rule as \<open>select\<close> returns it: the four keys \<open>update_rule_confidence\<close> reads,
  each present or absent. The answer of \<open>select\<close> is \<open>None\<close> or a list of statement results,
  each with its list of rows under the key \<open>result\<close>.
\<close>

record rule_data =
  application_count :: "int option"
  success_count :: "int option"
  fail_count :: "int option"
  avg_resolution_time :: "real option"

datatype db_result = NoResult | Results "rule_data list list"

text \<open>The two dicts that \<open>update_rule_confidence\<close> passes to \<open>merge\<close>.\<close>

record rule_updates =
  new_application_count :: int
  new_success_count :: int
  new_fail_count :: int
  new_confidence :: real
  last_used :: string
  new_avg_resolution_time :: "real option"

datatype rule_payload = Updates rule_updates | Deprecated bool

text \<open>\<open>rule_data.get(key, 0)\<close> and \<open>rule_data.get(key, 0.0)\<close>\<close>

definition get_count :: "int option \<Rightarrow> int" where
  "get_count field = (case field of None \<Rightarrow> 0 | Some n \<Rightarrow> n)"

definition get_float :: "real option \<Rightarrow> real" where
  "get_float field = (case field of None \<Rightarrow> 0.0 | Some x \<Rightarrow> x)"

text \<open>
  The \<open>try\<close> block of \<open>update_rule_confidence\<close> in three parts. First the statements
  between \<open>select\<close> and the first \<open>merge\<close>: the counts, the confidence and the \<open>updates\<close>
  dict. \<open>now\<close> is \<open>datetime.utcnow().isoformat()\<close>. The two divisions raise
  \<open>ZeroDivisionError\<close> on a zero divisor.
\<close>

definition rule_updates_of :: "rule_data \<Rightarrow> bool \<Rightarrow> real option \<Rightarrow> string \<Rightarrow> exn + rule_updates" where
  "rule_updates_of rule_data success resolution_time now =
     (let application_count = get_count (application_count rule_data) + 1;
          success_count = get_count (success_count rule_data) + (if success then 1 else 0);
          fail_count = get_count (fail_count rule_data) + (if success then 0 else 1)
      in if application_count + 2 = 0 then Inl ZeroDivisionError
         else
           (let new_confidence =
                  real_of_int (success_count + 1) / real_of_int (application_count + 2)
            in case resolution_time of
                 None \<Rightarrow>
                   Inr \<lparr>new_application_count = application_count,
                        new_success_count = success_count,
                        new_fail_count = fail_count,
                        new_confidence = new_confidence,
                        last_used = now,
                        new_avg_resolution_time = None\<rparr>
               | Some t \<Rightarrow>
                   (let old_avg = get_float (avg_resolution_time rule_data)
                    in if application_count = 0 then Inl ZeroDivisionError
                       else
                         Inr \<lparr>new_application_count = application_count,
                              new_success_count = success_count,
                              new_fail_count = fail_count,
                              new_confidence = new_confidence,
                              last_used = now,
                              new_avg_resolution_time =
                                Some ((old_avg * real_of_int (application_count - 1) + t)
                                        / real_of_int application_count)\<rparr>)))"

text \<open>Then the \<open>merge\<close> of the updates and the deprecation check with its own \<open>merge\<close>.\<close>

definition merge_updates ::
  "(rule_payload, db_result) driver \<Rightarrow> rule_payload DatabaseClient \<Rightarrow> string \<Rightarrow>
   rule_updates \<Rightarrow> (exn + unit) \<times> rule_payload DatabaseClient" where
  "merge_updates drv db1 rule_id updates =
     (let (r2, db2) = db_merge drv db1 rule_id (Updates updates)
      in case r2 of
           Inl e \<Rightarrow> (Inl e, db2)
         | Inr _ \<Rightarrow>
             if new_confidence updates < 0.4 \<and> new_application_count updates > 10
             then (let (r3, db3) = db_merge drv db2 rule_id (Deprecated True)
                   in case r3 of
                        Inl e \<Rightarrow> (Inl e, db3)
                      | Inr _ \<Rightarrow> (Inr (), db3))
             else (Inr (), db2))"

text \<open>The whole block, from the \<open>select\<close> on.\<close>

definition update_rule_confidence_body ::
  "(rule_payload, db_result) driver \<Rightarrow> rule_payload DatabaseClient \<Rightarrow> string \<Rightarrow> bool \<Rightarrow>
   real option \<Rightarrow> string \<Rightarrow> (exn + unit) \<times> rule_payload DatabaseClient" where
  "update_rule_confidence_body drv db rule_id success resolution_time now =
     (let (r, db1) = db_select drv db rule_id
      in case r of
           Inl e \<Rightarrow> (Inl e, db1)
         | Inr NoResult \<Rightarrow> (Inr (), db1)
         | Inr (Results []) \<Rightarrow> (Inr (), db1)
         | Inr (Results ([] # _)) \<Rightarrow> (Inr (), db1)
         | Inr (Results ((rule_data # _) # _)) \<Rightarrow>
             (case rule_updates_of rule_data success resolution_time now of
                Inl e \<Rightarrow> (Inl e, db1)
              | Inr updates \<Rightarrow> merge_updates drv db1 rule_id updates))"

text \<open>
  \<open>update_rule_confidence\<close>: the body inside \<open>try\<close>, and the handler
  \<open>except Exception as e\<close>, which logs and does not re-raise.
\<close>

definition update_rule_confidence ::
  "(rule_payload, db_result) driver \<Rightarrow> rule_payload DatabaseClient \<Rightarrow> string \<Rightarrow> bool \<Rightarrow>
   real option \<Rightarrow> string \<Rightarrow> (exn + unit) \<times> rule_payload DatabaseClient" where
  "update_rule_confidence drv db rule_id success resolution_time now =
     (case update_rule_confidence_body drv db rule_id success resolution_time now of
        (Inl e, db') \<Rightarrow> (Inr (), db')
      | (Inr u, db') \<Rightarrow> (Inr u, db'))"

text \<open>
  The route \<open>POST /rules/feedback\<close>. The engine reference is the module global
  \<open>_learning_engine\<close>; of the engine only its database client matters here. A response is
  the returned dict or the \<open>HTTPException\<close> raised, with its status code and detail.
\<close>

record RuleFeedbackRequest =
  rule_id :: string
  success :: bool
  resolution_time :: "real option"

datatype response =
    Returned bool string
  | HTTPException nat string

fun str_exn :: "exn \<Rightarrow> string" where
  "str_exn (RuntimeError m) = m"
| "str_exn (KeyError m) = m"
| "str_exn (ValidationError m) = m"
| "str_exn ZeroDivisionError = ''division by zero''"
| "str_exn (DriverError m) = m"

definition submit_rule_feedback ::
  "(rule_payload, db_result) driver \<Rightarrow> rule_payload DatabaseClient option \<Rightarrow>
   RuleFeedbackRequest \<Rightarrow> string \<Rightarrow> response \<times> rule_payload DatabaseClient option" where
  "submit_rule_feedback drv learning_engine request now =
     (case learning_engine of
        None \<Rightarrow> (HTTPException 503 ''Learning engine not initialized'', None)
      | Some engine_db \<Rightarrow>
          (case update_rule_confidence drv engine_db (rule_id request) (success request)
                  (resolution_time request) now of
             (Inl e, db') \<Rightarrow>
               (HTTPException 500 (''Failed to update rule: '' @ str_exn e), Some db')
           | (Inr _, db') \<Rightarrow> (Returned True ''Rule confidence updated'', Some db')))"

text \<open>A driver that accepts every call and answers \<open>select\<close> with one row, for the examples.\<close>

definition row_driver :: "rule_data \<Rightarrow> (rule_payload, db_result) driver" where
  "row_driver row conn call =
     (case call of CallSelect _ \<Rightarrow> Inr (Results [[row]]) | _ \<Rightarrow> Inr NoResult)"

definition connected_client :: "'p DatabaseClient" where
  "connected_client =
     \<lparr>client = Some \<lparr>url = ''ws://localhost:8000/rpc'', calls = []\<rparr>, connected = True\<rparr>"

definition stored_rule :: "int \<Rightarrow> int \<Rightarrow> int \<Rightarrow> rule_data" where
  "stored_rule applications successes failures =
     \<lparr>application_count = Some applications, success_count = Some successes,
      fail_count = Some failures, avg_resolution_time = None\<rparr>"

section \<open>The goal engine (aura.engines.goal.engine)\<close>

text \<open>
  Modelled from the spec: the \<open>Goal\<close> model, whose declaring module (\<open>aura.models.goal\<close>)
  is not among the sources. Its
  fields are the ones the specification lists; \<open>status\<close> is one of \<open>active\<close>, \<open>paused\<close>,
  \<open>completed\<close>, \<open>cancelled\<close>, and \<open>progress\<close> is constrained to \<open>[0, 1]\<close>, checked again on
  assignment (\<open>validate_assignment\<close> in \<open>aura.models.base\<close>). Timestamps are seconds on the
  real line, so that \<open>(t - u).total_seconds()\<close> is \<open>t - u\<close>.
\<close>

record Goal =
  goal_id :: string
  name :: string
  description :: string
  goal_type :: string
  priority :: real
  origin :: string
  emotional_alignment :: "(string, real) dict"
  status :: string
  progress :: real
  created :: real
  updated :: real
  completed :: "real option"
  metadata :: "(string, string) dict"


text \<open>
  The state-update message of \<open>formulate_goal\<close> and the message bus, which is not among the
  sources: \<open>publish\<close> is a parameter that answers with nothing or an exception.
\<close>

record EngineMessage =
  source :: string
  data :: "(string, string) dict"
  targets :: "string list"

text \<open>
  The attributes of \<open>GoalEngine\<close>; the attribute \<open>db\<close> is written \<open>db_client\<close>.
\<close>

record GoalEngine =
  active_goals :: "Goal list"
  current_boredom_level :: real
  last_user_interaction :: real
  db_client :: "Goal DatabaseClient"
  message_bus :: "(EngineMessage \<Rightarrow> exn + unit) option"

record goal_template =
  template_name :: string
  template_description :: string
  template_type :: string
  template_priority :: real

definition goal_templates :: "(string, goal_template) dict" where
  "goal_templates =
     [(''boredom'',
       \<lparr>template_name = ''Explore interesting topic'',
        template_description = ''Research a topic I haven't explored recently'',
        template_type = ''curiosity_driven'',
        template_priority = 0.6\<rparr>),
      (''idle_exploration'',
       \<lparr>template_name = ''Review recent learnings'',
        template_description = ''Analyze patterns from recent experiences'',
        template_type = ''learning_gap'',
        template_priority = 0.5\<rparr>),
      (''curiosity'',
       \<lparr>template_name = ''Deep dive investigation'',
        template_description = ''Investigate an intriguing pattern'',
        template_type = ''curiosity_driven'',
        template_priority = 0.7\<rparr>)]"

text \<open>The \<open>context\<close> argument of \<open>formulate_goal\<close>: the keys its caller and its body use.\<close>

record formulation_context =
  boredom_level :: real
  idle_time :: real
  emotions :: "(string, real) dict option"

text \<open>
  The goal that \<open>formulate_goal\<close> constructs. \<open>fresh\<close> stands for \<open>Goal\<close>'s defaults: the
  fields the call does not pass (\<open>status\<close>, \<open>progress\<close>, the timestamps, \<open>metadata\<close>) are taken
  from it. \<open>uuid_hex\<close> is \<open>uuid4().hex\<close>.
\<close>

definition new_goal ::
  "Goal \<Rightarrow> string \<Rightarrow> string \<Rightarrow> goal_template \<Rightarrow> formulation_context \<Rightarrow> Goal" where
  "new_goal fresh uuid_hex trigger template ctx =
     fresh\<lparr>goal_id := ''goal:'' @ take 12 uuid_hex,
           name := template_name template,
           description := template_description template,
           goal_type := template_type template,
           priority := template_priority template,
           origin := ''autonomous_'' @ trigger,
           emotional_alignment := (case emotions ctx of None \<Rightarrow> [] | Some d \<Rightarrow> d)\<rparr>"

text \<open>
  \<open>formulate_goal\<close>. Inside \<open>try\<close>: the goal is persisted, then appended, then the message is
  published; the handler returns \<open>None\<close> whichever of the calls raised.
\<close>

definition formulate_goal ::
  "(Goal, 'r) driver \<Rightarrow> GoalEngine \<Rightarrow> string \<Rightarrow> formulation_context \<Rightarrow> string \<Rightarrow> Goal \<Rightarrow>
   Goal option \<times> GoalEngine" where
  "formulate_goal drv self trigger ctx uuid_hex fresh =
     (case map_of goal_templates trigger of
        None \<Rightarrow> (None, self)
      | Some template \<Rightarrow>
          (let goal = new_goal fresh uuid_hex trigger template ctx;
               (r, db') = db_create drv (db_client self) ''goal'' goal
           in case r of
                Inl e \<Rightarrow> (None, self\<lparr>db_client := db'\<rparr>)
              | Inr _ \<Rightarrow>
                  (let self' = self\<lparr>db_client := db', active_goals := active_goals self @ [goal]\<rparr>
                   in case message_bus self of
                        None \<Rightarrow> (Some goal, self')
                      | Some publish \<Rightarrow>
                          (case publish
                                  \<lparr>source = ''goal_engine'',
                                   data = [(''goal_id'', goal_id goal), (''name'', name goal),
                                           (''type'', goal_type goal)],
                                   targets = [''orchestrator'', ''learning_engine'']\<rparr> of
                             Inl e \<Rightarrow> (None, self')
                           | Inr _ \<Rightarrow> (Some goal, self')))))"

text \<open>
  \<open>_consider_new_goal\<close>. \<open>now\<close> is \<open>datetime.utcnow()\<close>, read once for the whole call.
\<close>

definition consider_new_goal ::
  "(Goal, 'r) driver \<Rightarrow> GoalEngine \<Rightarrow> string \<Rightarrow> real \<Rightarrow> string \<Rightarrow> Goal \<Rightarrow> GoalEngine" where
  "consider_new_goal drv self trigger now uuid_hex fresh =
     (let active_count = length (filter (\<lambda>g. status g = ''active'') (active_goals self))
      in if active_count \<ge> 3 then self
         else
           (let recent =
                  filter (\<lambda>g. origin g = ''autonomous_'' @ trigger \<and> now - created g < 3600)
                    (active_goals self)
            in if recent \<noteq> [] then self
               else
                 (let ctx = \<lparr>boredom_level = current_boredom_level self,
                             idle_time = now - last_user_interaction self,
                             emotions = None\<rparr>
                  in snd (formulate_goal drv self trigger ctx uuid_hex fresh))))"
















text \<open>Values for the examples: \<open>Goal\<close> defaults, and an engine as \<open>__init__\<close> leaves it.\<close>

definition example_fresh :: "real \<Rightarrow> Goal" where
  "example_fresh now =
     \<lparr>goal_id = [], name = [], description = [], goal_type = [], priority = 0.5, origin = [],
      emotional_alignment = [], status = ''active'', progress = 0, created = now,
      updated = now, completed = None, metadata = []\<rparr>"

definition new_engine :: "real \<Rightarrow> GoalEngine" where
  "new_engine now =
     \<lparr>active_goals = [], current_boredom_level = 0.0, last_user_interaction = now,
      db_client = DatabaseClient_init, message_bus = None\<rparr>"

definition example_goal :: "string \<Rightarrow> string \<Rightarrow> string \<Rightarrow> real \<Rightarrow> real \<Rightarrow> Goal" where
  "example_goal gid goal_origin goal_status goal_priority goal_created =
     (example_fresh goal_created)\<lparr>goal_id := gid, origin := goal_origin,
        status := goal_status, priority := goal_priority\<rparr>"

text \<open>
  A goal that a boredom trigger created at time \<open>0\<close> and that has been completed since, and a
  hexadecimal string as \<open>uuid4().hex\<close> gives.
\<close>

definition old_boredom_goal :: Goal where
  "old_boredom_goal =
     example_goal ''goal:0a1b2c3d4e5f'' ''autonomous_boredom'' ''completed'' 0.6 0"

definition example_uuid :: string where
  "example_uuid = ''0123456789abcdef0123456789abcdef''"


section \<open>Auxiliary notions for the proofs\<close>

text \<open>Every value of a dict lies in the unit interval.\<close>

definition unit_range :: "(string, real) dict \<Rightarrow> bool" where
  "unit_range d = list_all (\<lambda>kv. 0 \<le> snd kv \<and> snd kv \<le> 1) d"

section \<open>Emotion physics: bounds and decay\<close>


lemma keys_update_present:
  "map_of d k = Some x \<Longrightarrow> map fst (AList.update k v d) = map fst d"
  by (induction d) (auto split: if_splits)

lemma emotion_names_distinct: "distinct (map emotion_name emotion_fields)"
  by (simp add: emotion_fields_def)

lemma emotion_in_fields: "e \<in> set emotion_fields"
  by (cases e) (simp_all add: emotion_fields_def)

lemma emotion_name_inj: "emotion_name a = emotion_name b \<Longrightarrow> a = b"
  by (cases a; cases b; simp)

lemma emotion_of_name_name: "emotion_of_name (emotion_name e) = Some e"
  by (cases e) (simp_all add: emotion_of_name_def emotion_fields_def)

lemma unit_range_update:
  "unit_range d \<Longrightarrow> 0 \<le> v \<Longrightarrow> v \<le> 1 \<Longrightarrow> unit_range (AList.update k v d)"
  by (induction d) (auto simp: unit_range_def)

lemma unit_range_lookup:
  "unit_range d \<Longrightarrow> map_of d k = Some x \<Longrightarrow> 0 \<le> x \<and> x \<le> 1"
  by (induction d) (auto simp: unit_range_def split: if_splits)

lemma inertia_loop_range:
  "unit_range acc \<Longrightarrow> inertia_loop i em ne ks acc = Inr fin \<Longrightarrow> unit_range fin"
proof (induction ks arbitrary: acc)
  case Nil
  then show ?case by simp
next
  case (Cons k ks)
  from Cons.prems(2) obtain old new where
    old: "map_of em k = Some old" and new: "map_of ne k = Some new"
    by (auto split: option.splits)
  let ?v = "max 0 (min 1 (old + (new - old) * (1 - i)))"
  have step: "inertia_loop i em ne ks (AList.update k ?v acc) = Inr fin"
    using Cons.prems(2) old new by (simp add: Let_def)
  have "unit_range (AList.update k ?v acc)"
    using Cons.prems(1) by (intro unit_range_update) auto
  then show ?case using Cons.IH step by blast
qed

lemma inertia_loop_total:
  "set ks \<subseteq> fst ` set em \<Longrightarrow> set ks \<subseteq> fst ` set ne \<Longrightarrow>
   \<exists>fin. inertia_loop i em ne ks acc = Inr fin"
proof (induction ks arbitrary: acc)
  case Nil
  then show ?case by simp
next
  case (Cons k ks)
  from Cons.prems obtain old new where
    "map_of em k = Some old" "map_of ne k = Some new"
    by (metis list.set_intros(1) map_of_eq_None_iff not_Some_eq subsetD)
  then show ?case using Cons by (simp add: Let_def)
qed

lemma keys_amplify_loop: "map fst (amplify_loop v dt l d) = map fst d"
  by (induction l arbitrary: d) (auto simp: Let_def keys_update_present split: option.splits)

lemma keys_suppress_loop: "map fst (suppress_loop v dt l d) = map fst d"
  by (induction l arbitrary: d) (auto simp: Let_def keys_update_present split: option.splits)

lemma keys_relationship_loop: "map fst (relationship_loop dt ks d) = map fst d"
  by (induction ks arbitrary: d)
     (auto simp: Let_def keys_amplify_loop keys_suppress_loop split: option.splits)

lemma keys_update_set: "fst ` set (AList.update k v d) = insert k (fst ` set d)"
  by (induction d) auto

lemma keys_decay_loop:
  "fst ` set (decay_loop c dt b items acc) = fst ` set items \<union> fst ` set acc"
proof (induction items arbitrary: acc)
  case Nil
  then show ?case by simp
next
  case (Cons a items)
  obtain k x where a: "a = (k, x)" by (cases a)
  show ?case unfolding a by (simp add: Let_def Cons.IH keys_update_set)
qed

lemma EmotionVector_init_ok:
  assumes "unit_range d"
  shows "\<exists>v. EmotionVector_init d = Inr v \<and> (\<forall>e. 0 \<le> v e \<and> v e \<le> 1)"
proof -
  have ok: "field_ok d e" for e
    using unit_range_lookup [OF assms] by (auto simp: field_ok_def split: option.splits)
  then have "list_all (field_ok d) emotion_fields"
    by (simp add: list_all_iff)
  moreover have "0 \<le> (case map_of d (emotion_name e) of None \<Rightarrow> 0 | Some x \<Rightarrow> x) \<and>
                 (case map_of d (emotion_name e) of None \<Rightarrow> 0 | Some x \<Rightarrow> x) \<le> 1" for e
    using unit_range_lookup [OF assms] by (auto split: option.splits)
  ultimately show ?thesis by (simp add: EmotionVector_init_def)
qed

lemma influence_loop_range: "unit_range d \<Longrightarrow> unit_range (influence_loop infl i d)"
proof (induction infl arbitrary: d)
  case Nil
  then show ?case by simp
next
  case (Cons a infl)
  obtain k delta where a: "a = (k, delta)" by (cases a)
  show ?case
  proof (cases "map_of d k")
    case None
    then show ?thesis using Cons a by simp
  next
    case (Some cur)
    have "unit_range (AList.update k (max 0 (min 1 (cur + delta * i))) d)"
      using Cons.prems by (intro unit_range_update) auto
    then show ?thesis using Cons.IH a Some by (simp add: Let_def)
  qed
qed

lemma unit_range_model_dump:
  "(\<forall>e. 0 \<le> v e \<and> v e \<le> 1) \<Longrightarrow> unit_range (model_dump v)"
  by (simp add: unit_range_def model_dump_def list_all_iff)

lemma tick_in_bounds:
  "\<exists>v. tick config current dt baseline_arg = Inr v \<and> (\<forall>e. 0 \<le> v e \<and> v e \<le> 1)"
proof -
  define b where "b = (case baseline_arg of None \<Rightarrow> baseline config | Some b \<Rightarrow> b)"
  define related where "related = relationship_pass dt (decay_pass config current dt b)"
  have "map fst related = map fst (decay_pass config current dt b)"
    by (simp add: related_def relationship_pass_def keys_relationship_loop)
  then have "fst ` set related = fst ` set (decay_pass config current dt b)"
    by (metis set_map)
  then have keys: "fst ` set related = fst ` set (model_dump current)"
    by (simp add: decay_pass_def keys_decay_loop)
  then have sub: "set (map fst (model_dump current)) \<subseteq> fst ` set related" by simp
  obtain fin where fin: "inertia_pass config current related = Inr fin"
    unfolding inertia_pass_def
    using inertia_loop_total [OF _ sub, of "model_dump current" "inertia_default config" "[]"]
    by auto
  have "unit_range fin"
    using inertia_loop_range [OF _ fin [unfolded inertia_pass_def]] by (simp add: unit_range_def)
  from EmotionVector_init_ok [OF this] show ?thesis
    using fin by (simp add: tick_def Let_def b_def [symmetric] related_def [symmetric])
qed

lemma apply_influence_in_bounds:
  "(\<forall>e. 0 \<le> current e \<and> current e \<le> 1) \<Longrightarrow>
   \<exists>v. apply_influence current influence intensity = Inr v \<and> (\<forall>e. 0 \<le> v e \<and> v e \<le> 1)"
  unfolding apply_influence_def
  by (intro EmotionVector_init_ok influence_loop_range unit_range_model_dump)

lemma influence_joy_example: "apply_influence (\<lambda>_. 0) [(''joy'', 5.0)] 1.0 = Inr ((\<lambda>_. 0)(Joy := 1))"
  apply (simp add: apply_influence_def model_dump_def emotion_fields_def EmotionVector_init_def field_ok_def fun_eq_iff)
  apply (rule allI)
  subgoal for e by (cases e; simp)
  done



text \<open>
  Claim C1. A vector whose 27 fields lie in \<open>[0, 1]\<close> stays in \<open>[0, 1]\<close>: both
  \<open>EmotionPhysics.tick\<close> and \<open>EmotionPhysics.apply_influence\<close> return a vector (the
  constructor's bounds check never fails) whose 27 fields lie in \<open>[0, 1]\<close>, for every
  configuration, time step, baseline, influence map and intensity; and an influence of
  \<open>+5.0\<close> on \<open>joy\<close> at intensity \<open>1.0\<close> takes the all-zero vector to \<open>joy = 1.0\<close> with the
  other fields unchanged.
\<close>

theorem emotion_bounds_invariant:
  assumes "\<forall>e. 0 \<le> current e \<and> current e \<le> 1"
  shows "(\<exists>v. tick config current dt baseline_arg = Inr v \<and> (\<forall>e. 0 \<le> v e \<and> v e \<le> 1)) \<and>
         (\<exists>v. apply_influence current influence intensity = Inr v \<and>
              (\<forall>e. 0 \<le> v e \<and> v e \<le> 1)) \<and>
         apply_influence (\<lambda>_. 0) [(''joy'', 5.0)] 1.0 = Inr ((\<lambda>_. 0)(Joy := 1.0))"
  using tick_in_bounds apply_influence_in_bounds [OF assms] influence_joy_example by simp

theorem emotion_bounds_invariant_witness:
  "(\<forall>e::emotion. (0::real) \<le> 0 \<and> (0::real) \<le> 1) \<and>
   (\<exists>v. tick \<lparr>decay_rate_primary = 0.1, decay_rate_aesthetic = 0.05, decay_rate_social = 0.08,
               decay_rate_cognitive = 0.12, inertia_default = 0.9, baseline = (\<lambda>_. 0.2)\<rparr>
          (\<lambda>_. 0) 1 None = Inr v \<and> (\<forall>e. 0 \<le> v e \<and> v e \<le> 1)) \<and>
   (\<exists>v. apply_influence (\<lambda>_. 0) [(''joy'', 5.0)] 1.0 = Inr v \<and> (\<forall>e. 0 \<le> v e \<and> v e \<le> 1))"
  using emotion_bounds_invariant [of "\<lambda>_. 0"
      "\<lparr>decay_rate_primary = 0.1, decay_rate_aesthetic = 0.05, decay_rate_social = 0.08,
        decay_rate_cognitive = 0.12, inertia_default = 0.9, baseline = (\<lambda>_. 0.2)\<rparr>"
      1 None "[(''joy'', 5.0)]" 1]
  by simp

lemma decay_loop_lookup:
  "distinct (map fst items) \<Longrightarrow>
   map_of (decay_loop c dt b items acc) k =
     (case map_of items k of
        None \<Rightarrow> map_of acc k
      | Some value \<Rightarrow>
          Some (value + (getattr_vector b k 0 - value) *
                  decay_rates c (dict_get EMOTION_CATEGORIES k Primary) * dt))"
proof (induction items arbitrary: acc)
  case Nil
  then show ?case by simp
next
  case (Cons a items)
  obtain k' x where a: "a = (k', x)" by (cases a)
  have notin: "map_of items k' = None"
    using Cons.prems a by (simp add: map_of_eq_None_iff)
  show ?case
    using Cons.prems notin unfolding a
    by (simp add: Let_def Cons.IH update_conv' split: option.splits)
qed

lemma decay_loop_keys:
  "distinct (map fst acc @ map fst items) \<Longrightarrow>
   map fst (decay_loop c dt b items acc) = map fst acc @ map fst items"
proof (induction items arbitrary: acc)
  case Nil
  then show ?case by simp
next
  case (Cons a items)
  obtain k x where a: "a = (k, x)" by (cases a)
  have "k \<notin> set (map fst acc)" using Cons.prems a by auto
  then show ?case
    using Cons.prems unfolding a by (simp add: Let_def Cons.IH update_keys)
qed

lemma model_dump_keys: "map fst (model_dump v) = map emotion_name emotion_fields"
  by (simp add: model_dump_def comp_def)

lemma model_dump_lookup: "map_of (model_dump v) (emotion_name e) = Some (v e)"
proof -
  have "map_of (map (\<lambda>e. (emotion_name e, v e)) xs) (emotion_name e) = Some (v e)"
    if "e \<in> set xs" for xs
    using that by (induction xs) (auto dest: emotion_name_inj)
  then show ?thesis by (simp add: model_dump_def emotion_in_fields)
qed

text \<open>
  Claim C5. The decay pass of one \<open>tick\<close> leaves, for each of the 27 emotions \<open>e\<close> (in field
  order, no other key), the value
  \<open>current[e] + (baseline[e] - current[e]) * decay_rate[category of e] * dt\<close>, where the
  categories are those of \<open>EMOTION_CATEGORIES\<close> (9 primary, 6 cognitive, 6 social,
  6 aesthetic); \<open>tick\<close> feeds this dict to the relationship pass and that to the inertia
  pass; and with \<open>decay_rate_primary = 0.2\<close>, \<open>dt = 1.0\<close>, baseline joy \<open>0.0\<close> and current joy
  \<open>0.5\<close> the decayed joy is \<open>0.4\<close>.
\<close>

theorem decay_pass_formula:
  "map fst (decay_pass config current dt b) = map emotion_name emotion_fields \<and>
   map_of (decay_pass config current dt b) (emotion_name e) =
     Some (current e + (b e - current e) *
             decay_rates config (dict_get EMOTION_CATEGORIES (emotion_name e) Primary) * dt) \<and>
   map (\<lambda>e. dict_get EMOTION_CATEGORIES (emotion_name e) Primary) emotion_fields =
     replicate 9 Primary @ replicate 6 Cognitive @ replicate 6 Social @ replicate 6 Aesthetic \<and>
   tick config current dt (Some b) =
     (case inertia_pass config current
             (relationship_pass dt (decay_pass config current dt b)) of
        Inl x \<Rightarrow> Inl x
      | Inr final_emotions \<Rightarrow> EmotionVector_init final_emotions) \<and>
   map_of (decay_pass (config\<lparr>decay_rate_primary := 0.2\<rparr>) (current(Joy := 0.5)) 1.0
             (b(Joy := 0.0))) ''joy'' = Some 0.4"
proof -
  have d: "distinct (map fst (model_dump current))" for current
    by (simp only: model_dump_keys emotion_names_distinct)
  have keys: "map fst (decay_pass config current dt b) = map emotion_name emotion_fields"
    unfolding decay_pass_def using decay_loop_keys [of "[]" "model_dump current"] d
    by (simp add: model_dump_keys)
  have val: "map_of (decay_pass config current dt b) (emotion_name e) =
     Some (current e + (b e - current e) *
             decay_rates config (dict_get EMOTION_CATEGORIES (emotion_name e) Primary) * dt)"
    for config current dt b e
    unfolding decay_pass_def
    by (simp add: decay_loop_lookup [OF d] model_dump_lookup getattr_vector_def
        emotion_of_name_name)
  have cats: "map (\<lambda>e. dict_get EMOTION_CATEGORIES (emotion_name e) Primary) emotion_fields =
     replicate 9 Primary @ replicate 6 Cognitive @ replicate 6 Social @ replicate 6 Aesthetic"
    by (simp add: emotion_fields_def dict_get_def EMOTION_CATEGORIES_def eval_nat_numeral)
  have t: "tick config current dt (Some b) =
     (case inertia_pass config current
             (relationship_pass dt (decay_pass config current dt b)) of
        Inl x \<Rightarrow> Inl x
      | Inr final_emotions \<Rightarrow> EmotionVector_init final_emotions)"
    by (simp add: tick_def Let_def)
  have ex: "map_of (decay_pass (config\<lparr>decay_rate_primary := 0.2\<rparr>) (current(Joy := 0.5)) 1.0
             (b(Joy := 0.0))) ''joy'' = Some 0.4"
    using val [of "config\<lparr>decay_rate_primary := 0.2\<rparr>" "current(Joy := 0.5)" 1
        "b(Joy := 0)" Joy]
    by (simp add: dict_get_def EMOTION_CATEGORIES_def)
  show ?thesis using keys val cats t ex by blast
qed

section \<open>Emotion translation: the neutral state\<close>

lemma top_n_subset: "set (get_top_n v n) \<subseteq> set (model_dump v)"
  unfolding get_top_n_def using set_take_subset [of n "sort_key (\<lambda>kv. - snd kv) (model_dump v)"]
  by simp

lemma no_significant:
  assumes "\<forall>e. v e < 0.1"
  shows "filter (\<lambda>kv. snd kv \<ge> 0.1) (get_top_n v 3) = []"
proof -
  have "snd kv < 0.1" if "kv \<in> set (model_dump v)" for kv
    using that assms by (auto simp: model_dump_def)
  then show ?thesis using top_n_subset [of v 3] by (fastforce simp: filter_empty_conv)
qed

lemma translate_keeps_translator: "snd (translate self v learning_context) = self"
  by (simp add: translate_def Let_def split: list.splits prod.splits sum.splits)

lemma get_state_hash_keeps_translator: "snd (get_state_hash self v) = self"
  by (simp add: get_state_hash_def Let_def)

text \<open>
  Claim C8. If no emotion of the vector reaches \<open>0.1\<close>, \<open>translate\<close> returns the fixed
  neutral sentence (with or without a learning context, whatever the lexicon) and
  \<open>get_state_hash\<close> returns \<open>neutral\<close>. Both operations are deterministic: a call leaves the
  translator as it found it, so a second call on the same vector (and learning context),
  made after the first or after a call of the other operation, returns the same string as
  the first; and a translator that has served calls still answers as a new one does.
\<close>

theorem neutral_translation:
  "((\<forall>e. v e < 0.1) \<longrightarrow>
      fst (translate self v learning_context) = Inr neutral_sentence \<and>
      fst (get_state_hash self v) = ''neutral'') \<and>
   snd (translate self v learning_context) = self \<and>
   snd (get_state_hash self v) = self \<and>
   fst (translate (snd (translate self v learning_context)) v learning_context) =
     fst (translate self v learning_context) \<and>
   fst (get_state_hash (snd (get_state_hash self v)) v) = fst (get_state_hash self v) \<and>
   fst (translate (snd (get_state_hash self v)) v learning_context) =
     fst (translate self v learning_context) \<and>
   fst (get_state_hash (snd (translate self v learning_context)) v) =
     fst (get_state_hash self v) \<and>
   fst (translate (snd (translate EmotionTranslator_init w other_context)) v learning_context) =
     fst (translate EmotionTranslator_init v learning_context)"
proof -
  have "fst (translate self v learning_context) = Inr neutral_sentence \<and>
      fst (get_state_hash self v) = ''neutral''"
    if rest: "\<forall>e. v e < 0.1"
  proof -
    note none = no_significant [OF rest]
    have "fst (translate self v learning_context) = Inr neutral_sentence"
      unfolding translate_def Let_def none by simp
    moreover have "fst (get_state_hash self v) = ''neutral''"
      unfolding get_state_hash_def Let_def none by simp
    ultimately show ?thesis by simp
  qed
  then show ?thesis
    by (simp add: translate_keeps_translator get_state_hash_keeps_translator)
qed

theorem neutral_translation_witness:
  "fst (translate EmotionTranslator_init (\<lambda>_. 0.05) None) = Inr neutral_sentence \<and>
   fst (get_state_hash EmotionTranslator_init (\<lambda>_. 0.05)) = ''neutral''"
  using neutral_translation [of "\<lambda>_. 0.05" EmotionTranslator_init None] by simp

section \<open>Emotion translation: coverage of the lexicon\<close>


lemma lexicon_keys:
  "map fst LEXICON = [''love'', ''joy'', ''interest'', ''curiosity'', ''trust'', ''fear'', ''sadness'',
     ''anger'', ''surprise'', ''fascination'', ''confusion'', ''certainty'', ''doubt'', ''boredom'',
     ''empathy'', ''compassion'', ''gratitude'', ''pride'', ''shame'', ''wonder'', ''awe'', ''serenity'',
     ''melancholy'', ''nostalgia'']"
  by (simp add: LEXICON_def)

lemma get_word_missing:
  "emotion \<notin> set (map fst LEXICON) \<Longrightarrow>
   get_word EmotionTranslator_init emotion word_type intensity =
     Inr (intensity @ '' '' @ emotion)"
  by (simp add: get_word_def EmotionTranslator_init_def map_of_eq_None_iff [symmetric]
      del: map_of_eq_None_iff)

text \<open>
  Claim C3 asks that the lexicon lookup succeed for each of the 27 emotions. The table has
  24 entries: \<open>disgust\<close>, \<open>envy\<close> and \<open>beauty\<close> are fields of the vector without an entry,
  and for them \<open>_get_word\<close>, on a translator as \<open>__init__\<close> makes it, returns the fallback
  string \<open>"{intensity} {emotion}"\<close>.
\<close>

theorem lexicon_gaps:
  "filter (\<lambda>e. emotion_name e \<notin> set (map fst LEXICON)) emotion_fields = [Disgust, Envy, Beauty] \<and>
   get_word EmotionTranslator_init ''disgust'' ''noun'' ''low'' = Inr ''low disgust'' \<and>
   get_word EmotionTranslator_init ''envy'' ''verb'' ''medium'' = Inr ''medium envy'' \<and>
   get_word EmotionTranslator_init ''beauty'' ''adj'' ''high'' = Inr ''high beauty''"
proof -
  have missing: "filter (\<lambda>e. emotion_name e \<notin> set (map fst LEXICON)) emotion_fields =
      [Disgust, Envy, Beauty]"
    unfolding lexicon_keys by (simp add: emotion_fields_def)
  have "''disgust'' \<notin> set (map fst LEXICON)" "''envy'' \<notin> set (map fst LEXICON)"
    "''beauty'' \<notin> set (map fst LEXICON)"
    unfolding lexicon_keys by simp_all
  then have "get_word EmotionTranslator_init ''disgust'' ''noun'' ''low'' = Inr ''low disgust''"
    "get_word EmotionTranslator_init ''envy'' ''verb'' ''medium'' = Inr ''medium envy''"
    "get_word EmotionTranslator_init ''beauty'' ''adj'' ''high'' = Inr ''high beauty''"
    by (simp_all add: get_word_missing)
  with missing show ?thesis by simp
qed

section \<open>Layer selection\<close>

lemma two_words: "length (py_split (code_points ''hello there'')) = 2"
  by (simp add: py_split_def is_space_def code_points_def)

lemma ten_words:
  "length (py_split (code_points ''how do I sort a list of numbers in python'')) = 10"
  by (simp add: py_split_def is_space_def code_points_def)

lemma thirty_five_words:
  "length (py_split (code_points
     ''a b c d e f g h i j k l m n o p q r s t u v w x y z a b c d e f g h i'')) = 35"
  by (simp add: py_split_def is_space_def code_points_def)

lemma no_break_space_words:
  "length (py_split [0x61, 0xA0, 0x62, 0x3000, 0x63, 0x2003, 0x64, 0x85, 0x65]) = 5"
  by (simp add: py_split_def is_space_def)

lemma select_layer_by_words:
  "select_layer q d =
     (if length (py_split q) < 5 \<and> \<not> d then ''L1''
      else if 30 \<le> length (py_split q) \<or> d then ''L3+L2'' else ''L3'')"
  by (auto simp: select_layer_def analyze_complexity_def Let_def)

text \<open>
  Claim C7. \<open>analyze_complexity\<close> maps fewer than 5 words to \<open>0.2\<close>, fewer than 15 to \<open>0.4\<close>,
  fewer than 30 to \<open>0.6\<close> and anything longer to \<open>0.8\<close>, the words being those of
  \<open>query.split()\<close>; \<open>select_layer\<close> returns \<open>L1\<close> exactly when the complexity is below \<open>0.3\<close>
  and no emotional depth is needed, \<open>L3+L2\<close> exactly when the complexity exceeds \<open>0.7\<close> or
  emotional depth is needed, and \<open>L3\<close> in the remaining case. A 2-word query without
  emotional depth yields \<open>L1\<close>, a 35-word query \<open>L3+L2\<close> whatever the flag, a 10-word query
  without emotional depth \<open>L3\<close>; so does a query of five letters separated by the no-break
  space, the ideographic space, the em space and the next-line character, which has five
  words.
\<close>

theorem select_layer_rule:
  "analyze_complexity q =
     (if length (py_split q) < 5 then 0.2 else if length (py_split q) < 15 then 0.4
      else if length (py_split q) < 30 then 0.6 else 0.8) \<and>
   (select_layer q d = ''L1'') = (analyze_complexity q < 0.3 \<and> \<not> d) \<and>
   (select_layer q d = ''L3+L2'') = (analyze_complexity q > 0.7 \<or> d) \<and>
   (select_layer q d = ''L3'') =
     (\<not> (analyze_complexity q < 0.3 \<and> \<not> d) \<and> \<not> (analyze_complexity q > 0.7 \<or> d)) \<and>
   select_layer (code_points ''hello there'') False = ''L1'' \<and>
   select_layer (code_points
      ''a b c d e f g h i j k l m n o p q r s t u v w x y z a b c d e f g h i'') d = ''L3+L2'' \<and>
   select_layer (code_points ''how do I sort a list of numbers in python'') False = ''L3'' \<and>
   select_layer [0x61, 0xA0, 0x62, 0x3000, 0x63, 0x2003, 0x64, 0x85, 0x65] False = ''L3''"
proof -
  have "analyze_complexity q =
     (if length (py_split q) < 5 then 0.2 else if length (py_split q) < 15 then 0.4
      else if length (py_split q) < 30 then 0.6 else 0.8)"
    by (simp add: analyze_complexity_def Let_def)
  moreover have "(select_layer q d = ''L1'') = (analyze_complexity q < 0.3 \<and> \<not> d)"
    by (auto simp: select_layer_def analyze_complexity_def Let_def)
  moreover have "(select_layer q d = ''L3+L2'') = (analyze_complexity q > 0.7 \<or> d)"
    by (auto simp: select_layer_def analyze_complexity_def Let_def)
  moreover have "(select_layer q d = ''L3'') =
     (\<not> (analyze_complexity q < 0.3 \<and> \<not> d) \<and> \<not> (analyze_complexity q > 0.7 \<or> d))"
    by (auto simp: select_layer_def analyze_complexity_def Let_def)
  moreover have "select_layer (code_points ''hello there'') False = ''L1''"
    by (simp add: select_layer_by_words two_words)
  moreover have "select_layer (code_points
      ''a b c d e f g h i j k l m n o p q r s t u v w x y z a b c d e f g h i'') d = ''L3+L2''"
    by (simp add: select_layer_by_words thirty_five_words)
  moreover have
    "select_layer (code_points ''how do I sort a list of numbers in python'') False = ''L3''"
    by (simp add: select_layer_by_words ten_words)
  moreover have
    "select_layer [0x61, 0xA0, 0x62, 0x3000, 0x63, 0x2003, 0x64, 0x85, 0x65] False = ''L3''"
    by (simp add: select_layer_by_words no_break_space_words)
  ultimately show ?thesis by blast
qed

section \<open>The database client: the connection guard\<close>


lemma data_operation_unconnected:
  "client self = None \<Longrightarrow>
   data_operation drv self call = (Inl (RuntimeError ''Database not connected''), self)"
  by (simp add: data_operation_def)

lemma data_operation_reaches:
  "client self = Some conn \<Longrightarrow>
   data_operation drv self call =
     (drv conn call, self\<lparr>client := Some (conn\<lparr>calls := calls conn @ [call]\<rparr>)\<rparr>)"
  by (simp add: data_operation_def invoke_def)

lemma connect_then_close:
  "snd (close (accepting_driver r) (snd (connect (accepting_driver r) test_settings DatabaseClient_init))) =
   \<lparr>client = Some \<lparr>url = ''ws://localhost:8000/rpc'',
       calls = [CallConnect, CallSignin ''root'' ''root'', CallUse ''test'' ''test'', CallClose]\<rparr>,
     connected = False\<rparr>"
  by (simp add: connect_def close_def invoke_def accepting_driver_def test_settings_def
      DatabaseClient_init_def)

text \<open>
  Claim C4 asks that each data operation raise the "not connected" error whenever the client
  is not connected, after \<open>close\<close> as well as before \<open>connect\<close>. On a fresh client it does.
  After a successful \<open>connect\<close> and \<open>close\<close> the client is not connected (\<open>is_connected\<close> is
  false), yet \<open>query\<close> passes the guard, because the guard tests \<open>_client\<close> and \<open>close\<close> does
  not clear it: the call reaches the closed connection object and its answer is returned.
\<close>

theorem query_after_close:
  "db_query drv DatabaseClient_init sql vars =
     (Inl (RuntimeError ''Database not connected''), DatabaseClient_init) \<and>
   \<not> is_connected
      (snd (close (accepting_driver r)
         (snd (connect (accepting_driver r) test_settings DatabaseClient_init)))) \<and>
   db_query (accepting_driver r)
      (snd (close (accepting_driver r)
         (snd (connect (accepting_driver r) test_settings DatabaseClient_init)))) sql vars =
     (Inr r,
      \<lparr>client = Some \<lparr>url = ''ws://localhost:8000/rpc'',
         calls = [CallConnect, CallSignin ''root'' ''root'', CallUse ''test'' ''test'', CallClose,
                  CallQuery sql vars]\<rparr>,
       connected = False\<rparr>)"
  unfolding connect_then_close
  by (simp add: db_query_def data_operation_def invoke_def accepting_driver_def
      DatabaseClient_init_def is_connected_def)

section \<open>Rule feedback\<close>

lemma update_rule_confidence_returns:
  "fst (update_rule_confidence drv db rid s t now) = Inr ()"
  by (cases "update_rule_confidence_body drv db rid s t now"; 
      cases "fst (update_rule_confidence_body drv db rid s t now)")
     (auto simp: update_rule_confidence_def)

text \<open>
  Claim C9 asks that a database failure inside \<open>update_rule_confidence\<close> reach the route
  handler of \<open>POST /rules/feedback\<close> and become an HTTP 500 response. With a client that was
  never connected the body of the operation fails with the "not connected" error at its
  first database call; the operation's own handler absorbs it, and the route returns the
  success response. The route returns the success response for every driver and every
  client state: its 500 branch is never taken.
\<close>

theorem feedback_failure_swallowed:
  "update_rule_confidence_body drv DatabaseClient_init (rule_id request) (success request)
      (resolution_time request) now =
     (Inl (RuntimeError ''Database not connected''), DatabaseClient_init) \<and>
   submit_rule_feedback drv (Some DatabaseClient_init) request now =
     (Returned True ''Rule confidence updated'', Some DatabaseClient_init) \<and>
   fst (submit_rule_feedback drv (Some db) request now) =
     Returned True ''Rule confidence updated''"
proof -
  have body: "update_rule_confidence_body drv DatabaseClient_init (rule_id request)
      (success request) (resolution_time request) now =
     (Inl (RuntimeError ''Database not connected''), DatabaseClient_init)"
    by (simp add: update_rule_confidence_body_def db_select_def data_operation_def
        DatabaseClient_init_def)
  then have "submit_rule_feedback drv (Some DatabaseClient_init) request now =
     (Returned True ''Rule confidence updated'', Some DatabaseClient_init)"
    by (simp add: submit_rule_feedback_def update_rule_confidence_def)
  moreover have "fst (submit_rule_feedback drv (Some db) request now) =
     Returned True ''Rule confidence updated''"
    using update_rule_confidence_returns [of drv db "rule_id request" "success request"
        "resolution_time request" now]
    by (cases "update_rule_confidence drv db (rule_id request) (success request)
        (resolution_time request) now") (auto simp: submit_rule_feedback_def)
  ultimately show ?thesis using body by simp
qed

lemma rule_updates_value:
  assumes "0 \<le> get_count (application_count row)"
  shows "rule_updates_of row ok rt now =
     Inr \<lparr>new_application_count = get_count (application_count row) + 1,
          new_success_count = get_count (success_count row) + (if ok then 1 else 0),
          new_fail_count = get_count (fail_count row) + (if ok then 0 else 1),
          new_confidence =
            real_of_int (get_count (success_count row) + (if ok then 1 else 0) + 1) /
            real_of_int (get_count (application_count row) + 1 + 2),
          last_used = now,
          new_avg_resolution_time =
            map_option (\<lambda>t. (get_float (avg_resolution_time row) *
                  real_of_int (get_count (application_count row) + 1 - 1) + t) /
                  real_of_int (get_count (application_count row) + 1)) rt\<rparr>"
  using assms by (cases rt) (simp_all add: rule_updates_of_def Let_def)

lemma merge_updates_calls:
  assumes "client db1 = Some conn1"
    and "drv conn1 (CallMerge rid (Updates u)) = Inr r"
  shows "snd (merge_updates drv db1 rid u) =
      db1\<lparr>client := Some (conn1\<lparr>calls := calls conn1 @
          CallMerge rid (Updates u) #
          (if new_confidence u < 0.4 \<and> new_application_count u > 10
           then [CallMerge rid (Deprecated True)] else [])\<rparr>)\<rparr>"
proof -
  let ?db2 = "db1\<lparr>client := Some (conn1\<lparr>calls := calls conn1 @ [CallMerge rid (Updates u)]\<rparr>)\<rparr>"
  have m1: "db_merge drv db1 rid (Updates u) = (Inr r, ?db2)"
    using assms by (simp add: db_merge_def data_operation_def invoke_def)
  obtain r3 where m2: "db_merge drv ?db2 rid (Deprecated True) =
      (r3, db1\<lparr>client := Some (conn1\<lparr>calls := calls conn1 @
          [CallMerge rid (Updates u), CallMerge rid (Deprecated True)]\<rparr>)\<rparr>)"
    by (simp add: db_merge_def data_operation_def invoke_def)
  show ?thesis
    unfolding merge_updates_def m1 using m2 by (cases r3) simp_all
qed

lemma update_rule_confidence_absorbs:
  "update_rule_confidence drv db rid ok rt now =
     (Inr (), snd (update_rule_confidence_body drv db rid ok rt now))"
proof -
  obtain res db' where b: "update_rule_confidence_body drv db rid ok rt now = (res, db')"
    by (cases "update_rule_confidence_body drv db rid ok rt now")
  show ?thesis unfolding update_rule_confidence_def b by (cases res) simp_all
qed

lemma example_failure:
  "update_rule_confidence (row_driver (stored_rule 10 1 9)) connected_client
      ''rule:ab12cd34ef56'' False None now =
     (Inr (),
      \<lparr>client = Some \<lparr>url = ''ws://localhost:8000/rpc'',
         calls = [CallSelect ''rule:ab12cd34ef56'',
                  CallMerge ''rule:ab12cd34ef56''
                    (Updates \<lparr>new_application_count = 11, new_success_count = 1,
                       new_fail_count = 10, new_confidence = 2 / 13, last_used = now,
                       new_avg_resolution_time = None\<rparr>),
                  CallMerge ''rule:ab12cd34ef56'' (Deprecated True)]\<rparr>,
       connected = True\<rparr>)"
  by (simp add: update_rule_confidence_def update_rule_confidence_body_def db_select_def
      db_merge_def data_operation_def invoke_def row_driver_def connected_client_def
      stored_rule_def get_count_def Let_def rule_updates_of_def merge_updates_def)

lemma example_success:
  "update_rule_confidence (row_driver (stored_rule 0 0 0)) connected_client
      ''rule:ab12cd34ef56'' True None now =
     (Inr (),
      \<lparr>client = Some \<lparr>url = ''ws://localhost:8000/rpc'',
         calls = [CallSelect ''rule:ab12cd34ef56'',
                  CallMerge ''rule:ab12cd34ef56''
                    (Updates \<lparr>new_application_count = 1, new_success_count = 1,
                       new_fail_count = 0, new_confidence = 2 / 3, last_used = now,
                       new_avg_resolution_time = None\<rparr>)]\<rparr>,
       connected = True\<rparr>)"
  by (simp add: update_rule_confidence_def update_rule_confidence_body_def db_select_def
      db_merge_def data_operation_def invoke_def row_driver_def connected_client_def
      stored_rule_def get_count_def Let_def rule_updates_of_def merge_updates_def)

text \<open>
  Claim C2. Applied to a rule that \<open>select\<close> returns, with stored counts that are not
  negative, \<open>update_rule_confidence\<close> sends one \<open>merge\<close> whose \<open>application_count\<close> is the
  stored one plus 1, whose \<open>success_count\<close> or \<open>fail_count\<close> (the one the flag selects, the
  other unchanged) is the stored one plus 1, and whose \<open>confidence\<close> is
  \<open>(success_count + 1) / (application_count + 2)\<close> of the incremented counts; when the database
  accepts it, a second \<open>merge\<close> of \<open>deprecated = True\<close> follows exactly when that confidence
  is below \<open>0.4\<close> and the incremented \<open>application_count\<close> exceeds 10. A rule with counts
  10, 1, 9 and one more failure gets confidence \<open>2/13\<close> and is deprecated; a new rule with one
  success gets \<open>2/3\<close> and is not.
\<close>

theorem rule_confidence_update:
  assumes conn: "client db = Some conn"
    and sel: "drv conn (CallSelect rid) = Inr (Results ((row # rows) # others))"
    and nonneg: "0 \<le> get_count (application_count row)"
    and a: "a = get_count (application_count row) + 1"
    and s: "s = get_count (success_count row) + (if ok then 1 else 0)"
    and f: "f = get_count (fail_count row) + (if ok then 0 else 1)"
    and c: "c = real_of_int (s + 1) / real_of_int (a + 2)"
    and u: "u = \<lparr>new_application_count = a, new_success_count = s, new_fail_count = f,
                 new_confidence = c, last_used = now,
                 new_avg_resolution_time =
                   map_option (\<lambda>t. (get_float (avg_resolution_time row) * real_of_int (a - 1) + t)
                                  / real_of_int a) rt\<rparr>"
    and merged: "drv (conn\<lparr>calls := calls conn @ [CallSelect rid]\<rparr>) (CallMerge rid (Updates u)) = Inr r"
  shows "update_rule_confidence drv db rid ok rt now =
     (Inr (),
      db\<lparr>client := Some (conn\<lparr>calls := calls conn @
          [CallSelect rid, CallMerge rid (Updates u)] @
          (if c < 0.4 \<and> a > 10 then [CallMerge rid (Deprecated True)] else [])\<rparr>)\<rparr>) \<and>
   update_rule_confidence (row_driver (stored_rule 10 1 9)) connected_client
      ''rule:ab12cd34ef56'' False None now =
     (Inr (),
      \<lparr>client = Some \<lparr>url = ''ws://localhost:8000/rpc'',
         calls = [CallSelect ''rule:ab12cd34ef56'',
                  CallMerge ''rule:ab12cd34ef56''
                    (Updates \<lparr>new_application_count = 11, new_success_count = 1,
                       new_fail_count = 10, new_confidence = 2 / 13, last_used = now,
                       new_avg_resolution_time = None\<rparr>),
                  CallMerge ''rule:ab12cd34ef56'' (Deprecated True)]\<rparr>,
       connected = True\<rparr>) \<and>
   update_rule_confidence (row_driver (stored_rule 0 0 0)) connected_client
      ''rule:ab12cd34ef56'' True None now =
     (Inr (),
      \<lparr>client = Some \<lparr>url = ''ws://localhost:8000/rpc'',
         calls = [CallSelect ''rule:ab12cd34ef56'',
                  CallMerge ''rule:ab12cd34ef56''
                    (Updates \<lparr>new_application_count = 1, new_success_count = 1,
                       new_fail_count = 0, new_confidence = 2 / 3, last_used = now,
                       new_avg_resolution_time = None\<rparr>)]\<rparr>,
       connected = True\<rparr>)"
proof -
  define conn1 where "conn1 = conn\<lparr>calls := calls conn @ [CallSelect rid]\<rparr>"
  define db1 where "db1 = db\<lparr>client := Some conn1\<rparr>"
  have sel': "db_select drv db rid = (Inr (Results ((row # rows) # others)), db1)"
    using conn sel by (simp add: db_select_def data_operation_def invoke_def db1_def conn1_def)
  have upd: "rule_updates_of row ok rt now = Inr u"
    unfolding rule_updates_value [OF nonneg] u c s f a by simp
  have c1: "client db1 = Some conn1" by (simp add: db1_def)
  have m: "drv conn1 (CallMerge rid (Updates u)) = Inr r"
    using merged by (simp add: conn1_def)
  have fields: "new_confidence u = c" "new_application_count u = a" by (simp_all add: u)
  have "update_rule_confidence_body drv db rid ok rt now = merge_updates drv db1 rid u"
    unfolding update_rule_confidence_body_def sel' by (simp add: upd)
  then have "snd (update_rule_confidence_body drv db rid ok rt now) =
      db1\<lparr>client := Some (conn1\<lparr>calls := calls conn1 @
          CallMerge rid (Updates u) #
          (if c < 0.4 \<and> a > 10 then [CallMerge rid (Deprecated True)] else [])\<rparr>)\<rparr>"
    using merge_updates_calls [of db1 conn1 drv rid u r, OF c1 m] by (simp only: fields)
  then have "update_rule_confidence drv db rid ok rt now =
     (Inr (),
      db\<lparr>client := Some (conn\<lparr>calls := calls conn @
          [CallSelect rid, CallMerge rid (Updates u)] @
          (if c < 0.4 \<and> a > 10 then [CallMerge rid (Deprecated True)] else [])\<rparr>)\<rparr>)"
    unfolding update_rule_confidence_absorbs by (simp add: db1_def conn1_def)
  then show ?thesis using example_failure [of now] example_success [of now] by blast
qed

theorem rule_confidence_update_witness:
  "update_rule_confidence (row_driver (stored_rule 10 1 9)) connected_client
      ''rule:ab12cd34ef56'' False None ''2026-11-04T12:00:00'' =
     (Inr (),
      \<lparr>client = Some \<lparr>url = ''ws://localhost:8000/rpc'',
         calls = [CallSelect ''rule:ab12cd34ef56'',
                  CallMerge ''rule:ab12cd34ef56''
                    (Updates \<lparr>new_application_count = 11, new_success_count = 1,
                       new_fail_count = 10, new_confidence = 2 / 13,
                       last_used = ''2026-11-04T12:00:00'',
                       new_avg_resolution_time = None\<rparr>),
                  CallMerge ''rule:ab12cd34ef56'' (Deprecated True)]\<rparr>,
       connected = True\<rparr>)"
  using rule_confidence_update [where db = connected_client
      and conn = "\<lparr>url = ''ws://localhost:8000/rpc'', calls = []\<rparr>"
      and drv = "row_driver (stored_rule 10 1 9)" and rid = "''rule:ab12cd34ef56''"
      and row = "stored_rule 10 1 9" and rows = "[]" and others = "[]"
      and a = 11 and s = 1 and f = 10 and c = "2 / 13" and ok = False and rt = None
      and now = "''2026-11-04T12:00:00''" and r = NoResult
      and u = "\<lparr>new_application_count = 11, new_success_count = 1, new_fail_count = 10,
                new_confidence = 2 / 13, last_used = ''2026-11-04T12:00:00'',
                new_avg_resolution_time = None\<rparr>"]
  by (simp add: connected_client_def row_driver_def stored_rule_def get_count_def)



section \<open>The goal engine: the list of goals\<close>






lemma formulate_goal_goals:
  "active_goals (snd (formulate_goal drv self trigger ctx uuid_hex fresh)) =
     (case map_of goal_templates trigger of
        None \<Rightarrow> active_goals self
      | Some template \<Rightarrow>
          (case fst (db_create drv (db_client self) ''goal''
                       (new_goal fresh uuid_hex trigger template ctx)) of
             Inl e \<Rightarrow> active_goals self
           | Inr _ \<Rightarrow> active_goals self @ [new_goal fresh uuid_hex trigger template ctx]))"
  by (auto simp: formulate_goal_def Let_def split: option.splits prod.splits sum.splits)













section \<open>The goal engine: throttling of new goals\<close>

lemma template_exists:
  "trigger \<in> set [''boredom'', ''idle_exploration'', ''curiosity''] \<Longrightarrow>
   \<exists>template. map_of goal_templates trigger = Some template"
  by (auto simp: goal_templates_def)

text \<open>
  Claim C6, as amended. For a trigger among \<open>boredom\<close>, \<open>idle_exploration\<close> and \<open>curiosity\<close>,
  \<open>_consider_new_goal\<close> leaves the engine as it is when 3 or more goals of the list have
  status \<open>active\<close>, and when a goal of the list with origin \<open>autonomous_{trigger}\<close> was created
  less than 3600 seconds before now. Otherwise it formulates a goal from the trigger's
  template, with that origin, and hands it to \<open>db.create\<close>: the goal is appended to the list
  when \<open>db.create\<close> returns, and the list is left unchanged when \<open>db.create\<close> raises.
\<close>

theorem consider_new_goal_rule:
  assumes "trigger \<in> set [''boredom'', ''idle_exploration'', ''curiosity'']"
  shows
   "(3 \<le> length (filter (\<lambda>g. status g = ''active'') (active_goals self)) \<longrightarrow>
       consider_new_goal drv self trigger now uuid_hex fresh = self) \<and>
    (list_ex (\<lambda>g. origin g = ''autonomous_'' @ trigger \<and> now - created g < 3600)
        (active_goals self) \<longrightarrow>
       consider_new_goal drv self trigger now uuid_hex fresh = self) \<and>
    (length (filter (\<lambda>g. status g = ''active'') (active_goals self)) < 3 \<and>
     \<not> list_ex (\<lambda>g. origin g = ''autonomous_'' @ trigger \<and> now - created g < 3600)
          (active_goals self) \<longrightarrow>
       (\<exists>template goal.
          map_of goal_templates trigger = Some template \<and>
          goal = new_goal fresh uuid_hex trigger template
                   \<lparr>boredom_level = current_boredom_level self,
                    idle_time = now - last_user_interaction self, emotions = None\<rparr> \<and>
          origin goal = ''autonomous_'' @ trigger \<and>
          active_goals (consider_new_goal drv self trigger now uuid_hex fresh) =
            (case fst (db_create drv (db_client self) ''goal'' goal) of
               Inl e \<Rightarrow> active_goals self
             | Inr _ \<Rightarrow> active_goals self @ [goal])))"
proof -
  let ?recent = "filter (\<lambda>g. origin g = ''autonomous_'' @ trigger \<and> now - created g < 3600)
      (active_goals self)"
  have ex: "list_ex (\<lambda>g. origin g = ''autonomous_'' @ trigger \<and> now - created g < 3600)
      (active_goals self) = (?recent \<noteq> [])"
    by (simp add: list_ex_iff filter_empty_conv)
  have one: "3 \<le> length (filter (\<lambda>g. status g = ''active'') (active_goals self)) \<longrightarrow>
       consider_new_goal drv self trigger now uuid_hex fresh = self"
    by (simp add: consider_new_goal_def Let_def)
  have two: "list_ex (\<lambda>g. origin g = ''autonomous_'' @ trigger \<and> now - created g < 3600)
        (active_goals self) \<longrightarrow>
       consider_new_goal drv self trigger now uuid_hex fresh = self"
    unfolding ex by (simp add: consider_new_goal_def Let_def)
  from template_exists [OF assms] obtain template where
    t: "map_of goal_templates trigger = Some template" by blast
  define goal where "goal = new_goal fresh uuid_hex trigger template
                   \<lparr>boredom_level = current_boredom_level self,
                    idle_time = now - last_user_interaction self, emotions = None\<rparr>"
  have o: "origin goal = ''autonomous_'' @ trigger"
    by (simp add: goal_def new_goal_def)
  have three: "active_goals (consider_new_goal drv self trigger now uuid_hex fresh) =
            (case fst (db_create drv (db_client self) ''goal'' goal) of
               Inl e \<Rightarrow> active_goals self
             | Inr _ \<Rightarrow> active_goals self @ [goal])"
    if "length (filter (\<lambda>g. status g = ''active'') (active_goals self)) < 3"
      and "\<not> list_ex (\<lambda>g. origin g = ''autonomous_'' @ trigger \<and> now - created g < 3600)
          (active_goals self)"
    using that unfolding ex goal_def
    by (simp add: consider_new_goal_def Let_def formulate_goal_goals t)
  show ?thesis using one two three t o goal_def by blast
qed

theorem consider_new_goal_rule_witness:
  "consider_new_goal (accepting_driver ())
      ((new_engine 0)\<lparr>active_goals :=
          [example_goal ''goal:a'' ''user'' ''active'' 0.5 0,
           example_goal ''goal:b'' ''user'' ''active'' 0.5 0,
           example_goal ''goal:c'' ''user'' ''active'' 0.5 0]\<rparr>)
      ''boredom'' 10 example_uuid (example_fresh 10) =
     (new_engine 0)\<lparr>active_goals :=
          [example_goal ''goal:a'' ''user'' ''active'' 0.5 0,
           example_goal ''goal:b'' ''user'' ''active'' 0.5 0,
           example_goal ''goal:c'' ''user'' ''active'' 0.5 0]\<rparr> \<and>
   consider_new_goal (accepting_driver ())
      ((new_engine 0)\<lparr>active_goals := [old_boredom_goal]\<rparr>)
      ''boredom'' 600 example_uuid (example_fresh 600) =
     (new_engine 0)\<lparr>active_goals := [old_boredom_goal]\<rparr> \<and>
   active_goals (consider_new_goal (accepting_driver ())
      ((new_engine 0)\<lparr>active_goals := [old_boredom_goal], db_client := connected_client\<rparr>)
      ''boredom'' 3660 example_uuid (example_fresh 3660)) =
     [old_boredom_goal,
      (example_fresh 3660)\<lparr>goal_id := ''goal:0123456789ab'',
         name := ''Explore interesting topic'',
         description := ''Research a topic I haven't explored recently'',
         goal_type := ''curiosity_driven'', priority := 0.6,
         origin := ''autonomous_boredom'', emotional_alignment := []\<rparr>]"
proof -
  have "consider_new_goal (accepting_driver ())
      ((new_engine 0)\<lparr>active_goals :=
          [example_goal ''goal:a'' ''user'' ''active'' 0.5 0,
           example_goal ''goal:b'' ''user'' ''active'' 0.5 0,
           example_goal ''goal:c'' ''user'' ''active'' 0.5 0]\<rparr>)
      ''boredom'' 10 example_uuid (example_fresh 10) =
     (new_engine 0)\<lparr>active_goals :=
          [example_goal ''goal:a'' ''user'' ''active'' 0.5 0,
           example_goal ''goal:b'' ''user'' ''active'' 0.5 0,
           example_goal ''goal:c'' ''user'' ''active'' 0.5 0]\<rparr>"
    using consider_new_goal_rule [where trigger = "''boredom''"
        and self = "(new_engine 0)\<lparr>active_goals :=
          [example_goal ''goal:a'' ''user'' ''active'' 0.5 0,
           example_goal ''goal:b'' ''user'' ''active'' 0.5 0,
           example_goal ''goal:c'' ''user'' ''active'' 0.5 0]\<rparr>"
        and drv = "accepting_driver ()" and now = 10 and uuid_hex = example_uuid
        and fresh = "example_fresh 10"]
    by (simp add: example_goal_def example_fresh_def)
  moreover have "consider_new_goal (accepting_driver ())
      ((new_engine 0)\<lparr>active_goals := [old_boredom_goal]\<rparr>)
      ''boredom'' 600 example_uuid (example_fresh 600) =
     (new_engine 0)\<lparr>active_goals := [old_boredom_goal]\<rparr>"
    using consider_new_goal_rule [where trigger = "''boredom''"
        and self = "(new_engine 0)\<lparr>active_goals := [old_boredom_goal]\<rparr>"
        and drv = "accepting_driver ()" and now = 600 and uuid_hex = example_uuid
        and fresh = "example_fresh 600"]
    by (simp add: old_boredom_goal_def example_goal_def example_fresh_def)
  moreover have "active_goals (consider_new_goal (accepting_driver ())
      ((new_engine 0)\<lparr>active_goals := [old_boredom_goal], db_client := connected_client\<rparr>)
      ''boredom'' 3660 example_uuid (example_fresh 3660)) =
     [old_boredom_goal,
      (example_fresh 3660)\<lparr>goal_id := ''goal:0123456789ab'',
         name := ''Explore interesting topic'',
         description := ''Research a topic I haven't explored recently'',
         goal_type := ''curiosity_driven'', priority := 0.6,
         origin := ''autonomous_boredom'', emotional_alignment := []\<rparr>]"
    using consider_new_goal_rule [where trigger = "''boredom''"
        and self = "(new_engine 0)\<lparr>active_goals := [old_boredom_goal],
                      db_client := connected_client\<rparr>"
        and drv = "accepting_driver ()" and now = 3660 and uuid_hex = example_uuid
        and fresh = "example_fresh 3660"]
    by (simp add: old_boredom_goal_def example_goal_def example_fresh_def goal_templates_def
        new_goal_def example_uuid_def db_create_def data_operation_def invoke_def
        connected_client_def accepting_driver_def new_engine_def)
  ultimately show ?thesis by blast
qed

text \<open>
  The claim as first stated has the goal appended whenever fewer than 3 goals are active and
  no goal of the same origin is younger than an hour. With one completed boredom goal that
  is 61 minutes old and a database client that was never connected, \<open>db.create\<close> raises,
  \<open>formulate_goal\<close> returns \<open>None\<close> from its handler, and the list is what it was.
\<close>

theorem consider_new_goal_counterexample:
  "active_goals
     (consider_new_goal (accepting_driver ())
        ((new_engine 0)\<lparr>active_goals := [old_boredom_goal]\<rparr>)
        ''boredom'' 3660 example_uuid (example_fresh 3660)) =
   [old_boredom_goal]"
  by (simp add: consider_new_goal_def formulate_goal_def goal_templates_def db_create_def
      data_operation_def new_engine_def DatabaseClient_init_def old_boredom_goal_def
      example_goal_def example_fresh_def Let_def)

end
